theory Spec2Isabelle
  imports Main "HOL-Library.Sublist"
begin

section \<open>Python values, strings and exceptions\<close>

text \<open>
  The source is Python. Strings are modelled as \<open>string\<close>; the functions below follow
  \<^verbatim>\<open>str.lower\<close>, \<^verbatim>\<open>str.split\<close>, \<^verbatim>\<open>in\<close>, \<^verbatim>\<open>list.index\<close> and \<^verbatim>\<open>str.isdigit\<close> on ASCII text.
  A dictionary value that may be \<^verbatim>\<open>None\<close> is a \<open>pyval\<close>; a dictionary key that may be
  missing is an \<open>option\<close> around it.
\<close>

datatype pyval = PyNone | PyStr string

text \<open>Truthiness of an \<^verbatim>\<open>Optional[str]\<close> argument: \<^verbatim>\<open>None\<close> and \<^verbatim>\<open>""\<close> are falsy.\<close>

definition truthy :: "string option \<Rightarrow> bool" where
  "truthy v = (case v of None \<Rightarrow> False | Some s \<Rightarrow> s \<noteq> [])"

text \<open>Truthiness of a value read from the state: \<^verbatim>\<open>None\<close> and \<^verbatim>\<open>""\<close> are falsy.\<close>

fun pyval_truthy :: "pyval \<Rightarrow> bool" where
  "pyval_truthy PyNone = False"
| "pyval_truthy (PyStr s) = (s \<noteq> [])"

definition char_lower :: "char \<Rightarrow> char" where
  "char_lower c =
     (case map_of (zip ''ABCDEFGHIJKLMNOPQRSTUVWXYZ'' ''abcdefghijklmnopqrstuvwxyz'') c of
        Some l \<Rightarrow> l
      | None \<Rightarrow> c)"

definition lower :: "string \<Rightarrow> string" where
  "lower s = map char_lower s"

definition isspace :: "char \<Rightarrow> bool" where
  "isspace c = (c \<in> set [CHR '' '', CHR 0x09, CHR 0x0A, CHR 0x0B, CHR 0x0C, CHR 0x0D,
                          CHR 0x1C, CHR 0x1D, CHR 0x1E, CHR 0x1F])"

definition isdigit :: "char \<Rightarrow> bool" where
  "isdigit c = (c \<in> set ''0123456789'')"

definition isupper :: "char \<Rightarrow> bool" where
  "isupper c = (c \<in> set ''ABCDEFGHIJKLMNOPQRSTUVWXYZ'')"

definition islower :: "char \<Rightarrow> bool" where
  "islower c = (c \<in> set ''abcdefghijklmnopqrstuvwxyz'')"

text \<open>A word character of the regular expression class \<^verbatim>\<open>\w\<close>.\<close>

definition isword :: "char \<Rightarrow> bool" where
  "isword c = (isupper c \<or> islower c \<or> isdigit c \<or> c = CHR ''_'')"

text \<open>\<^verbatim>\<open>s.split()\<close>: the maximal runs of non-whitespace characters; \<open>w\<close> is the run being read.\<close>

fun split_from :: "string \<Rightarrow> string \<Rightarrow> string list" where
  "split_from w [] = (if w = [] then [] else [w])"
| "split_from w (c # cs) =
     (if isspace c then (if w = [] then split_from [] cs else w # split_from [] cs)
      else split_from (w @ [c]) cs)"

definition split :: "string \<Rightarrow> string list" where
  "split s = split_from [] s"

fun starts_with :: "string \<Rightarrow> string \<Rightarrow> bool" where
  "starts_with [] s = True"
| "starts_with (p # ps) [] = False"
| "starts_with (p # ps) (c # cs) = (p = c \<and> starts_with ps cs)"

text \<open>\<^verbatim>\<open>sub in s\<close> on strings: \<open>sub\<close> occurs in \<open>s\<close> as a contiguous substring.\<close>

fun contains :: "string \<Rightarrow> string \<Rightarrow> bool" where
  "contains sub [] = (sub = [])"
| "contains sub (c # cs) = (starts_with sub (c # cs) \<or> contains sub cs)"

text \<open>\<^verbatim>\<open>xs.index(x)\<close>: the first position of \<open>x\<close>; \<open>None\<close> where Python raises ValueError.\<close>

fun index_of :: "'a \<Rightarrow> 'a list \<Rightarrow> nat option" where
  "index_of x [] = None"
| "index_of x (y # ys) =
     (if x = y then Some 0 else (case index_of x ys of None \<Rightarrow> None | Some i \<Rightarrow> Some (Suc i)))"

text \<open>
  \<^verbatim>\<open>re.findall(r'\b[A-Z][a-z]*\b', s)\<close>, scanning left to right. \<open>prev\<close> says whether the
  character before the current position is a word character. A match starts at an upper-case
  letter that follows a non-word character (or the start), takes the lower-case letters after
  it, and must end before a non-word character (or the end); giving back lower-case letters
  never produces a word boundary, so a failed attempt moves on by one character.
\<close>

function findall_capitalised :: "bool \<Rightarrow> string \<Rightarrow> string list" where
  "findall_capitalised prev [] = []"
| "findall_capitalised prev (c # cs) =
     (if isupper c \<and> \<not> prev then
        (let rest = dropWhile islower cs in
         if rest = [] \<or> \<not> isword (hd rest)
         then (c # takeWhile islower cs) # findall_capitalised True rest
         else findall_capitalised True cs)
      else findall_capitalised (isword c) cs)"
  by pat_completeness auto
termination
  by (relation "measure (\<lambda>(prev, s). length s)")
     (auto simp: le_imp_less_Suc length_dropWhile_le)

text \<open>
  An exception: its class name, \<^verbatim>\<open>str(e)\<close>, and the attribute \<^verbatim>\<open>interrupt_message\<close> when the
  object has one (\<^verbatim>\<open>hasattr(e, 'interrupt_message')\<close>).
\<close>

datatype exn = Exn (exn_name: string) (exn_str: string) (interrupt_message: "string option")

section \<open>Messages, State and deltas\<close>

text \<open>The content of a message is a string or a list of content blocks.\<close>

datatype content = Text string | Blocks "string list"

datatype message = HumanMessage content | AIMessage content | SystemMessage content

fun content_of :: "message \<Rightarrow> content" where
  "content_of (HumanMessage c) = c"
| "content_of (AIMessage c) = c"
| "content_of (SystemMessage c) = c"

text \<open>
  \<^verbatim>\<open>class State(TypedDict)\<close> of \<^verbatim>\<open>utils.py\<close>. A key of the dictionary may be missing (\<open>None\<close>
  at the outer option). \<open>remaining_steps\<close> is the step budget managed by the engine.
\<close>

record State =
  customer_id :: "pyval option"
  messages :: "message list option"
  loaded_memory :: "string option"
  remaining_steps :: nat

text \<open>What a node returns: a dictionary naming the fields it changes.\<close>

record delta =
  d_customer_id :: "pyval option"
  d_messages :: "message list option"
  d_loaded_memory :: "string option"

definition empty_delta :: delta where
  "empty_delta = \<lparr>d_customer_id = None, d_messages = None, d_loaded_memory = None\<rparr>"

definition messages_delta :: "message list \<Rightarrow> delta" where
  "messages_delta ms = \<lparr>d_customer_id = None, d_messages = Some ms, d_loaded_memory = None\<rparr>"

record config =
  cfg_thread_id :: string
  cfg_user_id :: "string option"

text \<open>
  The outcome of executing a node function: it returns a delta, calls \<^verbatim>\<open>interrupt(prompt)\<close>
  with no resume value available, or lets an exception escape.
\<close>

datatype node_out = Delta delta | Suspend string | Raise exn

section \<open>The sub-agent nodes of \<^verbatim>\<open>agent_builder.py\<close>\<close>

text \<open>
  A tool returns a string or a list (of rows, each already rendered), or raises. The
  database behind the tools is outside the program: a tool environment maps the tool's name
  and its positional arguments to what the call does.
\<close>

datatype tool_value = StrVal string | ListVal "string list"

type_synonym tool_env = "string \<Rightarrow> pyval list \<Rightarrow> exn + tool_value"

fun tool_truthy :: "tool_value \<Rightarrow> bool" where
  "tool_truthy (StrVal s) = (s \<noteq> [])"
| "tool_truthy (ListVal xs) = (xs \<noteq> [])"

fun join :: "string \<Rightarrow> string list \<Rightarrow> string" where
  "join sep [] = []"
| "join sep [x] = x"
| "join sep (x # y # ys) = x @ sep @ join sep (y # ys)"

fun str_of :: "tool_value \<Rightarrow> string" where
  "str_of (StrVal s) = s"
| "str_of (ListVal xs) = ''['' @ join '', '' xs @ '']''"

text \<open>
  \<^verbatim>\<open>state["messages"][-1].content\<close> when the key is there and the list is not empty, else the
  default text.
\<close>

definition last_content :: "State \<Rightarrow> string \<Rightarrow> content" where
  "last_content state dflt =
     (case messages state of
        None \<Rightarrow> Text dflt
      | Some ms \<Rightarrow> if ms \<noteq> [] then content_of (last ms) else Text dflt)"

text \<open>\<^verbatim>\<open>user_input.lower()\<close> and \<^verbatim>\<open>user_input.split()\<close>: a list has neither method.\<close>

definition AttributeError :: "string \<Rightarrow> exn" where
  "AttributeError attr =
     Exn ''AttributeError''
       (CHR 0x27 # ''list'' @ CHR 0x27 # '' object has no attribute '' @ CHR 0x27 # attr @ [CHR 0x27])
       None"

definition ValueError :: "string \<Rightarrow> exn" where
  "ValueError what = Exn ''ValueError'' what None"

text \<open>
  The keyword rules of \<^verbatim>\<open>music_assistant\<close>: the selected tool and its parameter, \<open>None\<close> when
  no keyword matches. In the \<^verbatim>\<open>song\<close>/\<^verbatim>\<open>track\<close> branch the source calls
  \<^verbatim>\<open>user_input_lower.split().index("song")\<close> unguarded: it raises ValueError when the keyword
  occurs in the text but not as a word of its own.
\<close>

definition music_select :: "string \<Rightarrow> exn + (string \<times> string) option" where
  "music_select user_input =
     (let user_input_lower = lower user_input in
      if contains ''artist'' user_input_lower then
        (let words = split user_input_lower;
             potential_artists = findall_capitalised False user_input;
             other = (if potential_artists \<noteq> [] then hd potential_artists else ''Queen'');
             param = (case index_of ''artist'' words of
                        Some artist_idx \<Rightarrow>
                          if artist_idx + 1 < length words then words ! (artist_idx + 1) else other
                      | None \<Rightarrow> other)
         in Inr (Some (if contains ''album'' user_input_lower then ''get_albums_by_artist''
                       else ''get_tracks_by_artist'', param)))
      else if contains ''genre'' user_input_lower then
        (let words = split user_input_lower;
             param = (case index_of ''genre'' words of
                        Some genre_idx \<Rightarrow>
                          if genre_idx + 1 < length words then words ! (genre_idx + 1) else ''Rock''
                      | None \<Rightarrow> ''Rock'')
         in Inr (Some (''get_songs_by_genre'', param)))
      else if contains ''song'' user_input_lower \<or> contains ''track'' user_input_lower then
        (let words = split user_input;
             keyword = (if contains ''song'' user_input_lower then ''song'' else ''track'')
         in case index_of keyword (split user_input_lower) of
              None \<Rightarrow> Inl (ValueError (CHR 0x27 # keyword @ CHR 0x27 # '' is not in list''))
            | Some song_idx \<Rightarrow>
                Inr (Some (''check_for_songs'',
                  if song_idx + 1 < length words then words ! (song_idx + 1) else ''The'')))
      else Inr None)"

text \<open>The body of the outer \<^verbatim>\<open>try\<close> of \<^verbatim>\<open>music_assistant\<close>: the response text, or the exception
  that reaches the outer \<^verbatim>\<open>except\<close>. An exception of the tool is caught by the inner handler.\<close>

text \<open>The responses of the inner \<^verbatim>\<open>except Exception as tool_error\<close> handlers.\<close>

definition music_tool_error :: "string \<Rightarrow> string" where
  "music_tool_error param =
     ''I tried to search for information about '' @ param
     @ '', but encountered an error. Could you please try a different search or rephrase your question?''"

definition invoice_tool_error :: string where
  "invoice_tool_error =
     ''I tried to retrieve your invoice information, but encountered an error. Could you please try again later?''"

definition music_response :: "tool_env \<Rightarrow> State \<Rightarrow> exn + string" where
  "music_response env state =
     (case last_content state ''Tell me about music'' of
        Blocks bs \<Rightarrow> Inl (AttributeError ''lower'')
      | Text user_input \<Rightarrow>
          (case music_select user_input of
             Inl e \<Rightarrow> Inl e
           | Inr None \<Rightarrow>
               Inr ''I can help you find information about music in our catalog. You can ask about artists, albums, songs, or genres.''
           | Inr (Some (selected_tool, param)) \<Rightarrow>
               (case env selected_tool [PyStr param] of
                  Inr tool_result \<Rightarrow>
                    Inr (if tool_truthy tool_result
                         then ''Here's what I found about '' @ param @ '':'' @ [CHR 0x0A, CHR 0x0A]
                                @ str_of tool_result
                         else ''I couldn't find any information about '' @ param
                                @ '' in our music catalog.'')
                | Inl tool_error \<Rightarrow> Inr (music_tool_error param))))"

definition music_apology :: string where
  "music_apology = ''I'm sorry, I'm having trouble processing your music-related request right now. Please try again later.''"

definition music_assistant :: "tool_env \<Rightarrow> State \<Rightarrow> config \<Rightarrow> node_out" where
  "music_assistant env state config =
     (case music_response env state of
        Inr response \<Rightarrow> Delta (messages_delta [AIMessage (Text response)])
      | Inl e \<Rightarrow> Delta (messages_delta [AIMessage (Text music_apology)]))"

text \<open>
  The keyword rules of \<^verbatim>\<open>invoice_assistant\<close>: the selected tool and the invoice id
  (\<open>None\<close> where the source leaves \<^verbatim>\<open>invoice_id = None\<close>).
\<close>

definition invoice_select :: "string \<Rightarrow> string \<times> string option" where
  "invoice_select user_input_lower =
     (if contains ''price'' user_input_lower \<or> contains ''expensive'' user_input_lower then
        (''get_invoices_sorted_by_unit_price'', None)
      else if contains ''employee'' user_input_lower \<or> contains ''support'' user_input_lower then
        (let words = split user_input_lower in
         (''get_employee_by_invoice_and_customer'',
          Some (case index_of ''invoice'' words of
                  Some invoice_idx \<Rightarrow>
                    if invoice_idx + 1 < length words
                    then filter isdigit (words ! (invoice_idx + 1))
                    else ''1''
                | None \<Rightarrow> ''1'')))
      else (''get_invoices_by_customer_sorted_by_date'', None))"

text \<open>\<^verbatim>\<open>state.get("customer_id", "1")\<close>: the default stands in only when the key is missing.\<close>

definition invoice_customer :: "State \<Rightarrow> pyval" where
  "invoice_customer state = (case customer_id state of None \<Rightarrow> PyStr ''1'' | Some v \<Rightarrow> v)"

text \<open>The tool call that \<^verbatim>\<open>invoice_assistant\<close> makes: the tool's name and its positional arguments.\<close>

definition invoice_call :: "State \<Rightarrow> string \<Rightarrow> string \<times> pyval list" where
  "invoice_call state user_input_lower =
     (let customer = invoice_customer state;
          (selected_tool, invoice_id) = invoice_select user_input_lower
      in if selected_tool = ''get_employee_by_invoice_and_customer'' \<and> truthy invoice_id
         then (selected_tool, [PyStr (the invoice_id), customer])
         else (selected_tool, [customer]))"

definition invoice_response :: "tool_env \<Rightarrow> State \<Rightarrow> exn + string" where
  "invoice_response env state =
     (case last_content state ''Tell me about my invoices'' of
        Blocks bs \<Rightarrow> Inl (AttributeError ''lower'')
      | Text user_input \<Rightarrow>
          (let (selected_tool, args) = invoice_call state (lower user_input) in
           case env selected_tool args of
             Inr tool_result \<Rightarrow>
               Inr (if tool_truthy tool_result
                    then ''Here's what I found about your invoices:'' @ [CHR 0x0A, CHR 0x0A]
                           @ str_of tool_result
                    else ''I couldn't find any invoice information for your account.'')
           | Inl tool_error \<Rightarrow> Inr invoice_tool_error))"

definition invoice_apology :: string where
  "invoice_apology = ''I'm sorry, I'm having trouble processing your invoice-related request right now. Please try again later.''"

definition invoice_assistant :: "tool_env \<Rightarrow> State \<Rightarrow> config \<Rightarrow> node_out" where
  "invoice_assistant env state config =
     (case invoice_response env state of
        Inr response \<Rightarrow> Delta (messages_delta [AIMessage (Text response)])
      | Inl e \<Rightarrow> Delta (messages_delta [AIMessage (Text invoice_apology)]))"

section \<open>The supervisor node of \<^verbatim>\<open>utils.create_supervisor\<close>\<close>

text \<open>
  What a tool of the supervisor returns: a dictionary with a \<^verbatim>\<open>messages\<close> list, or any other
  value (given by its \<^verbatim>\<open>str\<close>). A tool is its name and its \<^verbatim>\<open>func\<close>, applied to the messages
  of \<^verbatim>\<open>{"messages": state["messages"]}\<close>.
\<close>

datatype agent_output = OutMessages "message list" | OutOther string

type_synonym agent_tool = "string \<times> (message list \<Rightarrow> exn + agent_output)"

text \<open>\<^verbatim>\<open>next((tool for tool in tools if key in tool.name.lower()), None)\<close>\<close>

definition find_tool :: "string \<Rightarrow> agent_tool list \<Rightarrow> agent_tool option" where
  "find_tool key tools =
     (case filter (\<lambda>t. contains key (lower (fst t))) tools of [] \<Rightarrow> None | t # ts \<Rightarrow> Some t)"

definition supervisor_select :: "agent_tool list \<Rightarrow> string \<Rightarrow> agent_tool option" where
  "supervisor_select tools user_input_lower =
     (if list_ex (\<lambda>music_term. contains music_term user_input_lower)
           [''music'', ''song'', ''artist'', ''album'', ''track'', ''genre'']
      then find_tool ''music'' tools
      else if list_ex (\<lambda>invoice_term. contains invoice_term user_input_lower)
           [''invoice'', ''purchase'', ''buy'', ''order'', ''payment'']
      then find_tool ''invoice'' tools
      else (case tools of [] \<Rightarrow> None | t # ts \<Rightarrow> Some t))"

definition supervisor_direct :: string where
  "supervisor_direct = ''I'm sorry, I couldn't process your request through our specialized agents. Is there anything specific about our music catalog or your invoices that you'd like to know?''"

definition supervisor_apology :: string where
  "supervisor_apology = ''I'm sorry, I'm having trouble processing your request right now. Please try again later.''"

text \<open>
  The body of the outer \<^verbatim>\<open>try\<close> of \<^verbatim>\<open>supervisor_node\<close>. Reading \<^verbatim>\<open>state["messages"]\<close> for the tool
  and the tool's call stand inside the inner \<^verbatim>\<open>try\<close>, whose handler falls through to the direct
  response.
\<close>

definition supervisor_response :: "agent_tool list \<Rightarrow> State \<Rightarrow> exn + content" where
  "supervisor_response tools state =
     (case last_content state ''Hello'' of
        Blocks bs \<Rightarrow> Inl (AttributeError ''lower'')
      | Text user_input \<Rightarrow>
          (case supervisor_select tools (lower user_input) of
             None \<Rightarrow> Inr (Text supervisor_direct)
           | Some (name, func) \<Rightarrow>
               (case messages state of
                  None \<Rightarrow> Inr (Text supervisor_direct)
                | Some ms \<Rightarrow>
                    (case func ms of
                       Inl tool_error \<Rightarrow> Inr (Text supervisor_direct)
                     | Inr (OutOther s) \<Rightarrow> Inr (Text s)
                     | Inr (OutMessages out) \<Rightarrow>
                         (case rev out of
                            [] \<Rightarrow> Inr (Text (''The '' @ name
                                   @ '' processed your request but didn't provide a specific answer.''))
                          | msg # rest \<Rightarrow> Inr (content_of msg))))))"

definition supervisor_node :: "agent_tool list \<Rightarrow> State \<Rightarrow> config \<Rightarrow> node_out" where
  "supervisor_node tools state config =
     (case supervisor_response tools state of
        Inr response \<Rightarrow> Delta (messages_delta [AIMessage response])
      | Inl e \<Rightarrow> Delta (messages_delta [AIMessage (Text supervisor_apology)]))"

section \<open>The nodes of the complete graph\<close>

text \<open>\<^verbatim>\<open>state.get("customer_id")\<close>: \<^verbatim>\<open>None\<close> when the key is missing.\<close>

definition get_customer_id :: "State \<Rightarrow> pyval" where
  "get_customer_id state = (case customer_id state of None \<Rightarrow> PyNone | Some v \<Rightarrow> v)"

text \<open>
  \<^verbatim>\<open>verify_info\<close> of \<^verbatim>\<open>build_verify_info_node\<close>. Nothing in the \<^verbatim>\<open>try\<close> block can raise, so the
  handler (which also returns customer id \<^verbatim>\<open>"1"\<close>) is never entered.
\<close>

definition verify_info :: "State \<Rightarrow> config \<Rightarrow> node_out" where
  "verify_info state config =
     (if get_customer_id state = PyNone then
        (let customer_id = ''1'';
             intent_message = SystemMessage (Text
               (''Thank you for contacting us! I'll help you with your request. Using account ID ''
                @ customer_id @ ''.''))
         in Delta \<lparr>d_customer_id = Some (PyStr customer_id), d_messages = Some [intent_message],
                   d_loaded_memory = None\<rparr>)
      else Delta empty_delta)"

text \<open>
  \<^verbatim>\<open>human_input\<close>: \<^verbatim>\<open>interrupt("Please provide input.")\<close> suspends the run when no resume value
  is available and returns the resume value otherwise; the value is then appended to the
  messages (the messages channel turns a plain string into a human message).
\<close>

definition human_input :: "State \<Rightarrow> config \<Rightarrow> string option \<Rightarrow> node_out" where
  "human_input state config resume =
     (case resume of
        None \<Rightarrow> Suspend ''Please provide input.''
      | Some user_input \<Rightarrow> Delta (messages_delta [HumanMessage (Text user_input)]))"

text \<open>
  \<^verbatim>\<open>load_memory\<close>. \<^verbatim>\<open>load_user_memory\<close> reads the application's database and is a parameter: it
  returns the formatted preferences or raises, and \<^verbatim>\<open>load_memory\<close> has no handler around it.
\<close>

definition load_memory :: "(string \<Rightarrow> exn + string) \<Rightarrow> State \<Rightarrow> config \<Rightarrow> node_out" where
  "load_memory load_user_memory state config =
     (let user_id0 = (case cfg_user_id config of None \<Rightarrow> PyStr [] | Some u \<Rightarrow> PyStr u);
          user_id = (if \<not> pyval_truthy user_id0 \<and> customer_id state \<noteq> None
                     then the (customer_id state) else user_id0)
      in case user_id of
           PyNone \<Rightarrow> Delta \<lparr>d_customer_id = None, d_messages = None, d_loaded_memory = Some []\<rparr>
         | PyStr u \<Rightarrow>
             if u = [] then Delta \<lparr>d_customer_id = None, d_messages = None, d_loaded_memory = Some []\<rparr>
             else (case load_user_memory u of
                     Inl e \<Rightarrow> Raise e
                   | Inr memory \<Rightarrow>
                       Delta \<lparr>d_customer_id = None, d_messages = None, d_loaded_memory = Some memory\<rparr>))"

text \<open>
  \<^verbatim>\<open>create_memory\<close> returns \<^verbatim>\<open>{}\<close> on every path: with no user id, after saving the preferences,
  and from both exception handlers. Its write to the application's database is not part of
  the State.
\<close>

definition create_memory :: "State \<Rightarrow> config \<Rightarrow> node_out" where
  "create_memory state config = Delta empty_delta"

text \<open>\<^verbatim>\<open>should_interrupt\<close>, the decision function of the conditional edge after \<^verbatim>\<open>verify_info\<close>.\<close>

definition should_interrupt :: "State \<Rightarrow> config \<Rightarrow> string" where
  "should_interrupt state config =
     (if get_customer_id state \<noteq> PyNone then ''continue'' else ''interrupt'')"

section \<open>The graph and the engine that runs it\<close>

text \<open>
  A node function takes the State, the configuration and the resume value that
  \<^verbatim>\<open>interrupt\<close> returns, if there is one. A graph is what \<^verbatim>\<open>add_node\<close>, \<^verbatim>\<open>add_edge\<close> and
  \<^verbatim>\<open>add_conditional_edges\<close> have registered.
\<close>

type_synonym node_fn = "State \<Rightarrow> config \<Rightarrow> string option \<Rightarrow> node_out"

record graph =
  g_nodes :: "(string \<times> node_fn) list"
  g_edges :: "(string \<times> string) list"
  g_conditional :: "(string \<times> (State \<Rightarrow> config \<Rightarrow> string) \<times> (string \<times> string) list) list"

definition START :: string where
  "START = ''__start__''"

definition END :: string where
  "END = ''__end__''"

text \<open>The label-to-node map of the conditional edge after \<^verbatim>\<open>verify_info\<close>.\<close>

definition verify_routes :: "(string \<times> string) list" where
  "verify_routes = [(''continue'', ''load_memory''), (''interrupt'', ''human_input'')]"

text \<open>
  The graph of \<^verbatim>\<open>build_complete_agent_system\<close>; \<open>tools\<close> are the two sub-agent tools of the
  supervisor and \<open>load_user_memory\<close> is the database read of \<^verbatim>\<open>load_memory\<close>.
\<close>

definition multi_agent_final :: "agent_tool list \<Rightarrow> (string \<Rightarrow> exn + string) \<Rightarrow> graph" where
  "multi_agent_final tools load_user_memory =
     \<lparr>g_nodes =
        [(''verify_info'', \<lambda>state config resume. verify_info state config),
         (''human_input'', human_input),
         (''load_memory'', \<lambda>state config resume. load_memory load_user_memory state config),
         (''supervisor'', \<lambda>state config resume. supervisor_node tools state config),
         (''create_memory'', \<lambda>state config resume. create_memory state config)],
      g_edges =
        [(START, ''verify_info''),
         (''human_input'', ''verify_info''),
         (''load_memory'', ''supervisor''),
         (''supervisor'', ''create_memory''),
         (''create_memory'', END)],
      g_conditional = [(''verify_info'', should_interrupt, verify_routes)]\<rparr>"

text \<open>
  Modelled from the spec: the engine that executes a graph (the graph library's
  \<^verbatim>\<open>StateGraph.compile\<close> and \<^verbatim>\<open>invoke\<close>, with its checkpointer and its channel reducers) is not
  among the source files. The definitions from here to \<open>invoke\<close> follow sections 3, 4.2, 4.3
  and 7 of the specification.

  Section 3, the merge of a delta into the State: field-level overwrite, except \<open>messages\<close>,
  which appends.
\<close>

definition apply_delta :: "State \<Rightarrow> delta \<Rightarrow> State" where
  "apply_delta s d =
     s\<lparr>customer_id := (case d_customer_id d of None \<Rightarrow> customer_id s | Some v \<Rightarrow> Some v),
       messages := (case d_messages d of
                      None \<Rightarrow> messages s
                    | Some new \<Rightarrow> Some ((case messages s of None \<Rightarrow> [] | Some old \<Rightarrow> old) @ new)),
       loaded_memory := (case d_loaded_memory d of None \<Rightarrow> loaded_memory s | Some m \<Rightarrow> Some m)\<rparr>"

datatype status = Running | Interrupted | Completed | Failed

text \<open>
  Modelled from the spec (section 3): a checkpoint is a snapshot (sequence number, node name,
  state), here with the thread's status at that point; the thread id is the key under which
  the thread is stored and the timestamp is left out. A thread keeps its checkpoints (latest
  last), its pending interrupt marker (node name and prompt), and \<open>th_executed\<close>, the names of
  the nodes executed so far, in order.
\<close>

record checkpoint =
  cp_seq :: nat
  cp_node :: string
  cp_state :: State
  cp_status :: status

record thread =
  th_checkpoints :: "checkpoint list"
  th_marker :: "(string \<times> string) option"
  th_executed :: "string list"

type_synonym store = "string \<Rightarrow> thread option"

definition new_thread :: thread where
  "new_thread = \<lparr>th_checkpoints = [], th_marker = None, th_executed = []\<rparr>"

definition empty_State :: "nat \<Rightarrow> State" where
  "empty_State budget =
     \<lparr>customer_id = None, messages = None, loaded_memory = None, remaining_steps = budget\<rparr>"

text \<open>Modelled from the spec (section 4.4): \<open>save\<close> appends a checkpoint with the next sequence
  number.\<close>

definition save :: "string \<Rightarrow> State \<Rightarrow> status \<Rightarrow> thread \<Rightarrow> thread" where
  "save node s st th =
     th\<lparr>th_checkpoints := th_checkpoints th
          @ [\<lparr>cp_seq = Suc (length (th_checkpoints th)), cp_node = node, cp_state = s,
               cp_status = st\<rparr>]\<rparr>"

definition StepBudgetExceededError :: exn where
  "StepBudgetExceededError = Exn ''StepBudgetExceededError'' ''step budget exceeded'' None"

definition NoPendingInterruptError :: exn where
  "NoPendingInterruptError = Exn ''NoPendingInterruptError'' ''no pending interrupt'' None"

definition RoutingError :: "string \<Rightarrow> exn" where
  "RoutingError label = Exn ''RoutingError'' label None"

definition UnknownNodeError :: "string \<Rightarrow> exn" where
  "UnknownNodeError name = Exn ''UnknownNodeError'' name None"

text \<open>
  Modelled from the spec (section 4.2, step 6): the next node after \<open>node\<close>: the unconditional
  edge if present, else the conditional edge's decision on the State; a label missing from
  the label-to-node map is a RoutingError.
\<close>

definition next_node :: "graph \<Rightarrow> string \<Rightarrow> State \<Rightarrow> config \<Rightarrow> exn + string" where
  "next_node g node s cfg =
     (case map_of (g_edges g) node of
        Some to \<Rightarrow> Inr to
      | None \<Rightarrow>
          (case map_of (g_conditional g) node of
             None \<Rightarrow> Inl (RoutingError node)
           | Some (decisionFn, labelToNodeMap) \<Rightarrow>
               (let label = decisionFn s cfg in
                case map_of labelToNodeMap label of
                  None \<Rightarrow> Inl (RoutingError label)
                | Some to \<Rightarrow> Inr to)))"

datatype run_result = RCompleted State | RInterrupted string | RFailed exn

text \<open>
  Modelled from the spec (section 4.2, steps 4 to 8): the loop of \<open>run\<close> from \<open>current\<close>.
  Step 4 fetches the node and takes one step from the budget; once the budget has reached
  zero the run fails with StepBudgetExceededError instead, so that a budget of \<open>n\<close> steps is
  spent by exactly \<open>n\<close> node executions (Scenario B of section 8). Step 5 executes the node
  and, when it suspends, records the marker and an Interrupted checkpoint; step 6 merges the
  delta, saves a checkpoint and determines the next node on the merged State; step 7
  completes at the terminal node; step 8 repeats. A failure saves a Failed checkpoint first
  (section 7). With a resume value (step 2) the suspended node's output is produced from the
  value and no step is taken for it.
\<close>

function exec_loop ::
  "graph \<Rightarrow> config \<Rightarrow> string \<Rightarrow> string option \<Rightarrow> State \<Rightarrow> thread \<Rightarrow> run_result \<times> thread" where
  "exec_loop g cfg current resume s th =
     (case map_of (g_nodes g) current of
        None \<Rightarrow> (RFailed (UnknownNodeError current), save current s Failed th)
      | Some executeFn \<Rightarrow>
          if resume = None \<and> remaining_steps s = 0
          then (RFailed StepBudgetExceededError, save current s Failed th)
          else
            (let s1 = (if resume = None then s\<lparr>remaining_steps := remaining_steps s - 1\<rparr> else s)
             in case executeFn s1 cfg resume of
                  Suspend prompt \<Rightarrow>
                    (RInterrupted prompt,
                     save current s1 Interrupted
                       (th\<lparr>th_marker := Some (current, prompt),
                           th_executed := th_executed th @ [current]\<rparr>))
                | Raise e \<Rightarrow>
                    (RFailed e,
                     save current s1 Failed (th\<lparr>th_executed := th_executed th @ [current]\<rparr>))
                | Delta d \<Rightarrow>
                    (let s2 = apply_delta s1 d;
                         th2 = save current s2 Running
                                 (th\<lparr>th_executed := th_executed th @ [current]\<rparr>)
                     in case next_node g current s2 cfg of
                          Inl e \<Rightarrow> (RFailed e, save current s2 Failed th2)
                        | Inr nxt \<Rightarrow>
                            if nxt = END then (RCompleted s2, save END s2 Completed th2)
                            else exec_loop g cfg nxt None s2 th2)))"
  by pat_completeness auto
termination
  by (relation "measure (\<lambda>(g, cfg, current, resume, s, th).
                   remaining_steps s + (case resume of None \<Rightarrow> 0 | Some r \<Rightarrow> 1))")
     (auto simp: apply_delta_def split: if_splits)

declare exec_loop.simps [simp del]

datatype graph_input = Command_resume string | Input "message list"

text \<open>
  Modelled from the spec (section 4.2, steps 1 to 3): \<open>run\<close> on thread \<open>tid\<close> of the store.
  Step 1 loads the latest checkpoint or starts from the empty State with \<open>budget\<close> steps.
  Step 2, resume: with no pending marker the call fails with NoPendingInterruptError and the
  store is returned as it was; with a marker, the marker is consumed and the run continues
  at the suspended node with the payload. Step 3, fresh run: the input is appended to the
  messages and the run starts at the node after the start pseudo-node, or at the suspended
  node when the thread is parked at an interrupt.
\<close>

definition run ::
  "graph \<Rightarrow> nat \<Rightarrow> string \<Rightarrow> graph_input \<Rightarrow> config \<Rightarrow> store \<Rightarrow> run_result \<times> store" where
  "run g budget tid inp cfg store =
     (let th = (case store tid of None \<Rightarrow> new_thread | Some t \<Rightarrow> t);
          s = (case th_checkpoints th of [] \<Rightarrow> empty_State budget | c # cs \<Rightarrow> cp_state (last (c # cs)))
      in case inp of
           Command_resume payload \<Rightarrow>
             (case th_marker th of
                None \<Rightarrow> (RFailed NoPendingInterruptError, store)
              | Some (node, prompt) \<Rightarrow>
                  (let (r, th') = exec_loop g cfg node (Some payload) s (th\<lparr>th_marker := None\<rparr>)
                   in (r, store(tid \<mapsto> th'))))
         | Input ms \<Rightarrow>
             (let s0 = apply_delta s (messages_delta ms) in
              case th_marker th of
                Some (node, prompt) \<Rightarrow>
                  (let (r, th') = exec_loop g cfg node None s0 th in (r, store(tid \<mapsto> th')))
              | None \<Rightarrow>
                  (case next_node g START s0 cfg of
                     Inl e \<Rightarrow> (RFailed e, store(tid \<mapsto> save START s0 Failed th))
                   | Inr first \<Rightarrow>
                       (let (r, th') = exec_loop g cfg first None s0 th
                        in (r, store(tid \<mapsto> th'))))))"

text \<open>
  Modelled from the spec: \<^verbatim>\<open>agent_graph.invoke(input, config)\<close> as the callers in the source
  use it: it returns a State or raises. A completed run returns the final State, and a
  failed run raises its error (section 4.2: surfaced to the caller). The suspend signal is
  caught only by the engine (section 4.3), so an interrupted run returns as well: the State
  checkpointed at the interrupt, while the prompt stays with the pending marker. The thread
  is the one named in the configuration.
\<close>

definition checkpointed_state :: "nat \<Rightarrow> store \<Rightarrow> string \<Rightarrow> State" where
  "checkpointed_state budget store tid =
     (case store tid of
        None \<Rightarrow> empty_State budget
      | Some th \<Rightarrow>
          (case th_checkpoints th of
             [] \<Rightarrow> empty_State budget
           | c # cs \<Rightarrow> cp_state (last (c # cs))))"

definition invoke :: "graph \<Rightarrow> nat \<Rightarrow> graph_input \<Rightarrow> config \<Rightarrow> store \<Rightarrow> (exn + State) \<times> store" where
  "invoke g budget inp cfg store =
     (case run g budget (cfg_thread_id cfg) inp cfg store of
        (RCompleted s, store') \<Rightarrow> (Inr s, store')
      | (RInterrupted prompt, store') \<Rightarrow>
          (Inr (checkpointed_state budget store' (cfg_thread_id cfg)), store')
      | (RFailed e, store') \<Rightarrow> (Inl e, store'))"

section \<open>Building the agents\<close>

text \<open>
  \<^verbatim>\<open>build_music_catalog_agent\<close> and \<^verbatim>\<open>build_invoice_agent\<close> compile a graph with one node between
  the start and the end.
\<close>

definition single_node_graph :: "string \<Rightarrow> (State \<Rightarrow> config \<Rightarrow> node_out) \<Rightarrow> graph" where
  "single_node_graph name node =
     \<lparr>g_nodes = [(name, \<lambda>state config resume. node state config)],
      g_edges = [(START, name), (name, END)],
      g_conditional = []\<rparr>"

text \<open>
  \<^verbatim>\<open>Tool(name=..., func=agent.invoke)\<close> of \<^verbatim>\<open>build_supervisor_agent\<close>: the supervisor calls
  \<^verbatim>\<open>func({"messages": ...})\<close> with no configuration, so the sub-agent runs on a thread of its
  own and its final State is the result.
\<close>

definition agent_tool_of :: "string \<Rightarrow> graph \<Rightarrow> nat \<Rightarrow> agent_tool" where
  "agent_tool_of name g budget =
     (name,
      \<lambda>ms. case invoke g budget (Input ms) \<lparr>cfg_thread_id = [], cfg_user_id = None\<rparr> Map.empty of
              (Inl e, store') \<Rightarrow> Inl e
            | (Inr s, store') \<Rightarrow>
                (case messages s of None \<Rightarrow> Inr (OutOther ''{}'') | Some out \<Rightarrow> Inr (OutMessages out)))"

definition build_complete_agent_system ::
  "tool_env \<Rightarrow> (string \<Rightarrow> exn + string) \<Rightarrow> nat \<Rightarrow> graph" where
  "build_complete_agent_system env load_user_memory budget =
     multi_agent_final
       [agent_tool_of ''music_catalog_subagent''
          (single_node_graph ''music_assistant'' (music_assistant env)) budget,
        agent_tool_of ''invoice_information_subagent''
          (single_node_graph ''invoice_assistant'' (invoice_assistant env)) budget]
       load_user_memory"

section \<open>\<^verbatim>\<open>run_agent_with_input\<close>\<close>

text \<open>
  The compiled graph that \<^verbatim>\<open>run_agent_with_input\<close> receives: \<^verbatim>\<open>agent_graph.invoke(input, config)\<close>
  returns a State or raises, and changes whatever the graph persists (\<open>'st\<close>).
\<close>

type_synonym 'st agent_graph = "graph_input \<Rightarrow> config \<Rightarrow> 'st \<Rightarrow> (exn + State) \<times> 'st"

text \<open>The dictionary that \<^verbatim>\<open>run_agent_with_input\<close> returns; a missing key is \<open>None\<close>.\<close>

record agent_result =
  res_status :: string
  res_result :: "State option"
  res_message :: "string option"
  res_error_details :: "string option"
  res_thread_id :: string

text \<open>\<^verbatim>\<open>traceback.format_exc()\<close>, reduced to the last line of the traceback.\<close>

definition format_exc :: "exn \<Rightarrow> string" where
  "format_exc e = exn_name e @ '': '' @ exn_str e"

text \<open>\<^verbatim>\<open>HumanMessage(content=user_input)\<close>: the constructor rejects \<^verbatim>\<open>None\<close>.\<close>

definition new_HumanMessage :: "string option \<Rightarrow> exn + message" where
  "new_HumanMessage c =
     (case c of
        None \<Rightarrow> Inl (Exn ''ValidationError'' ''content: Input should be a valid string'' None)
      | Some text \<Rightarrow> Inr (HumanMessage (Text text)))"

text \<open>The thread id of the run: the caller's when it is truthy, else \<^verbatim>\<open>str(uuid.uuid4())\<close>,
  whose value is the parameter \<open>uuid4\<close>.\<close>

definition effective_thread_id :: "string option \<Rightarrow> string \<Rightarrow> string" where
  "effective_thread_id thread_id uuid4 = (if \<not> truthy thread_id then uuid4 else the thread_id)"

definition make_config :: "string option \<Rightarrow> string option \<Rightarrow> string \<Rightarrow> config" where
  "make_config thread_id user_id uuid4 =
     \<lparr>cfg_thread_id = effective_thread_id thread_id uuid4,
      cfg_user_id = (if truthy user_id then user_id else None)\<rparr>"

text \<open>The body of the \<^verbatim>\<open>try\<close> block: the invocations of the graph.\<close>

definition invoke_graph ::
  "'st agent_graph \<Rightarrow> string option \<Rightarrow> string option \<Rightarrow> config \<Rightarrow> 'st \<Rightarrow> (exn + State) \<times> 'st" where
  "invoke_graph agent_graph user_input resume_input config st =
     (if truthy resume_input then
        (let resume_message = HumanMessage (Text (the resume_input)) in
         case agent_graph (Command_resume (the resume_input)) config st of
           (Inr res, st1) \<Rightarrow> (Inr res, st1)
         | (Inl resume_error, st1) \<Rightarrow> agent_graph (Input [resume_message]) config st1)
      else
        (case new_HumanMessage user_input of
           Inl e \<Rightarrow> (Inl e, st)
         | Inr m \<Rightarrow> agent_graph (Input [m]) config st))"

definition run_agent_with_input ::
  "'st agent_graph \<Rightarrow> string option \<Rightarrow> string option \<Rightarrow> string option \<Rightarrow> string option \<Rightarrow>
     string \<Rightarrow> 'st \<Rightarrow> agent_result \<times> 'st" where
  "run_agent_with_input agent_graph user_input thread_id user_id resume_input uuid4 st =
     (let tid = effective_thread_id thread_id uuid4;
          config = make_config thread_id user_id uuid4
      in case invoke_graph agent_graph user_input resume_input config st of
           (Inr res, st') \<Rightarrow>
             (\<lparr>res_status = ''complete'', res_result = Some res, res_message = None, res_error_details = None,
               res_thread_id = tid\<rparr>, st')
         | (Inl e, st') \<Rightarrow>
             if interrupt_message e \<noteq> None then
               (\<lparr>res_status = ''interrupted'', res_result = None, res_message = Some (exn_str e),
                 res_error_details = None, res_thread_id = tid\<rparr>, st')
             else
               (\<lparr>res_status = ''error'', res_result = None, res_message = Some (exn_str e),
                 res_error_details = Some (format_exc e), res_thread_id = tid\<rparr>, st'))"

section \<open>\<^verbatim>\<open>ChatResumeView.post\<close>\<close>

text \<open>
  The HTTP response: the 400 for a request without \<^verbatim>\<open>message\<close>, the 404 of
  \<^verbatim>\<open>get_object_or_404\<close>, or a JSON body with its HTTP status code, \<^verbatim>\<open>status\<close>, \<^verbatim>\<open>message\<close> and
  \<^verbatim>\<open>response\<close>.
\<close>

datatype response =
    BadRequest
  | NotFound
  | Body (http_status: nat) (body_status: string) (body_message: "string option")
      (body_response: "content option")

text \<open>The last AI message of the final messages, searched from the end.\<close>

definition final_ai_message :: "message list \<Rightarrow> content option" where
  "final_ai_message final_messages =
     (case filter (\<lambda>msg. case msg of AIMessage c \<Rightarrow> True | _ \<Rightarrow> False) (rev final_messages) of
        [] \<Rightarrow> None
      | msg # rest \<Rightarrow> Some (content_of msg))"

text \<open>The view's outer handler after a KeyError on \<^verbatim>\<open>result['result']['messages']\<close>.\<close>

definition key_error_message :: string where
  "key_error_message = ''Error processing message: '' @ CHR 0x27 # ''messages'' @ [CHR 0x27]"

definition start_fresh :: "string \<times> content" where
  "start_fresh =
     (''assistant'', Text ''I'm sorry, I encountered an unexpected error. Let's start fresh.'')"

text \<open>
  The tail of the view, on a result with status \<^verbatim>\<open>complete\<close>: the last AI message becomes the
  response; \<open>missing\<close> is the response when there is none.
\<close>

definition respond_complete ::
  "agent_result \<Rightarrow> response \<Rightarrow> (string \<times> content) list \<Rightarrow> response \<times> (string \<times> content) list" where
  "respond_complete res missing log =
     (case messages (the (res_result res)) of
        None \<Rightarrow> (Body 500 ''error'' (Some key_error_message) None, log @ [start_fresh])
      | Some final_messages \<Rightarrow>
          (case final_ai_message final_messages of
             Some content \<Rightarrow> (Body 200 ''complete'' None (Some content), log @ [(''assistant'', content)])
           | None \<Rightarrow> (missing, log)))"

text \<open>
  The view's world is the transcript (\<^verbatim>\<open>Message.objects.create\<close> appends a role and a content)
  and what the graph persists. \<open>conversation_exists\<close> says whether \<^verbatim>\<open>get_object_or_404\<close> finds the
  conversation. On a result with status \<^verbatim>\<open>error\<close> the view calls \<^verbatim>\<open>run_agent_with_input\<close> a second
  time, with the message as a fresh input.
\<close>

definition ChatResumeView_post ::
  "'st agent_graph \<Rightarrow> bool \<Rightarrow> string option \<Rightarrow> string \<Rightarrow> string \<Rightarrow> string \<Rightarrow>
     (string \<times> content) list \<times> 'st \<Rightarrow> response \<times> (string \<times> content) list \<times> 'st" where
  "ChatResumeView_post agent_system conversation_exists request_message thread_id user_id uuid4 world =
     (case request_message of
        None \<Rightarrow> (BadRequest, world)
      | Some message \<Rightarrow>
          if \<not> conversation_exists then (NotFound, world)
          else
            (let log1 = fst world @ [(''user'', Text message)];
                 (res, st1) = run_agent_with_input agent_system None (Some thread_id) (Some user_id)
                                (Some message) uuid4 (snd world)
             in if res_status res = ''interrupted'' then
                  (Body 200 ''interrupted'' (res_message res) None,
                   log1 @ [(''assistant'', Text (the (res_message res)))], st1)
                else if res_status res = ''error'' then
                  (let error_message = ''Error processing message: '' @ the (res_message res);
                       log2 = log1 @ [(''assistant'', Text
                         ''I'm sorry, I encountered an error processing your request. Let me try again.'')];
                       (fresh_result, st2) = run_agent_with_input agent_system (Some message)
                                               (Some thread_id) (Some user_id) None uuid4 st1;
                       failed = Body 500 ''error'' (Some error_message) None
                   in if res_status fresh_result = ''complete''
                      then (let (resp, log3) = respond_complete fresh_result failed log2
                            in (resp, log3, st2))
                      else (failed, log2, st2))
                else
                  (let (resp, log3) = respond_complete res
                         (Body 500 ''error'' (Some ''No assistant response found'') None) log1
                   in (resp, log3, st1))))"

section \<open>Notions used to state the properties\<close>

text \<open>The message sequence of a State; a State without the key has none.\<close>

definition the_messages :: "State \<Rightarrow> message list" where
  "the_messages s = (case messages s of None \<Rightarrow> [] | Some ms \<Rightarrow> ms)"

text \<open>A history of checkpoints is append-only in its messages when the messages of each
  checkpoint are an initial segment of the messages of the next.\<close>

fun append_only :: "checkpoint list \<Rightarrow> bool" where
  "append_only (c # d # cs) =
     (prefix (the_messages (cp_state c)) (the_messages (cp_state d)) \<and> append_only (d # cs))"
| "append_only cs = True"

text \<open>The invariant of a run: the thread's history is append-only and the current State
  extends the messages of the latest checkpoint.\<close>

definition extends :: "thread \<Rightarrow> State \<Rightarrow> bool" where
  "extends th s =
     (append_only (th_checkpoints th) \<and>
      (th_checkpoints th = [] \<or>
       prefix (the_messages (cp_state (last (th_checkpoints th)))) (the_messages s)))"

text \<open>Thread \<open>tid\<close> of the store has no pending interrupt marker.\<close>

definition no_pending :: "store \<Rightarrow> string \<Rightarrow> bool" where
  "no_pending store tid = (case store tid of None \<Rightarrow> True | Some th \<Rightarrow> th_marker th = None)"

text \<open>A graph whose only node always routes back to itself (Scenario B).\<close>

definition self_loop :: graph where
  "self_loop =
     \<lparr>g_nodes = [(''loop'', \<lambda>state config resume. Delta empty_delta)],
      g_edges = [(START, ''loop''), (''loop'', ''loop'')],
      g_conditional = []\<rparr>"


text \<open>
  Two compiled graphs for calls of \<^verbatim>\<open>run_agent_with_input\<close> that do not depend on an engine. What
  they persist is the list of the inputs they have run. Both answer an input by running it
  and returning a State with its messages. The first rejects every resume command with
  NoPendingInterruptError and changes nothing; the second answers a resume command by
  returning an empty State, and runs nothing.
\<close>

definition rejecting_graph :: "(graph_input list) agent_graph" where
  "rejecting_graph inp cfg inputs =
     (case inp of
        Command_resume payload \<Rightarrow> (Inl NoPendingInterruptError, inputs)
      | Input ms \<Rightarrow> (Inr (apply_delta (empty_State 25) (messages_delta ms)), inputs @ [inp]))"

definition returning_graph :: "(graph_input list) agent_graph" where
  "returning_graph inp cfg inputs =
     (case inp of
        Command_resume payload \<Rightarrow> (Inr (empty_State 25), inputs)
      | Input ms \<Rightarrow> (Inr (apply_delta (empty_State 25) (messages_delta ms)), inputs @ [inp]))"

text \<open>
  Environments for the concrete runs below: a database whose every query returns one row,
  a user without saved preferences (\<^verbatim>\<open>load_user_memory\<close> returns \<^verbatim>\<open>"None"\<close>), and a database that
  is down. The step budget of these runs is 25.
\<close>

definition one_row :: tool_env where
  "one_row name args = Inr (StrVal ''[(1,)]'')"

definition no_preferences :: "string \<Rightarrow> exn + string" where
  "no_preferences user_id = Inr ''None''"

definition database_down :: "string \<Rightarrow> exn + string" where
  "database_down user_id = Inl (Exn ''OperationalError'' ''unable to open database file'' None)"

definition tool_down :: tool_env where
  "tool_down name args = Inl (Exn ''OperationalError'' ''unable to open database file'' None)"

text \<open>A database that has invoices for customer \<^verbatim>\<open>"1"\<close> only: a tool called with any other
  customer argument raises.\<close>

definition only_customer_one :: tool_env where
  "only_customer_one name args =
     (if args \<noteq> [] \<and> last args = PyStr ''1'' then Inr (StrVal ''[(1,)]'')
      else Inl (Exn ''LookupError'' ''no such customer'' None))"

definition agent_system :: "store agent_graph" where
  "agent_system = invoke (build_complete_agent_system one_row no_preferences 25) 25"

definition agent_system_down :: "store agent_graph" where
  "agent_system_down = invoke (build_complete_agent_system one_row database_down 25) 25"

definition fresh_State :: State where
  "fresh_State = empty_State 25"

text \<open>The store after a first message on thread \<^verbatim>\<open>t1\<close> has been answered.\<close>

definition after_first_run :: store where
  "after_first_run =
     snd (run_agent_with_input agent_system (Some ''hello'') (Some ''t1'') None None ''u1'' Map.empty)"

section \<open>Properties of the sub-agent nodes\<close>

lemma music_assistant_total:
  "\<exists>c. music_assistant env s cfg = Delta (messages_delta [AIMessage (Text c)])"
  by (cases "music_response env s") (auto simp: music_assistant_def)

lemma invoice_assistant_total:
  "\<exists>c. invoice_assistant env s cfg = Delta (messages_delta [AIMessage (Text c)])"
  by (cases "invoice_response env s") (auto simp: invoice_assistant_def)

lemma invoice_call_last: "last (snd (invoice_call s l)) = invoice_customer s"
  by (simp add: invoice_call_def Let_def split: prod.splits)

lemma invoice_call_cong:
  "invoice_customer s = invoice_customer s' \<Longrightarrow> invoice_call s l = invoice_call s' l"
  by (simp add: invoice_call_def)

lemma invoice_response_cong:
  "invoice_customer s = invoice_customer s' \<Longrightarrow> messages s = messages s' \<Longrightarrow>
   invoice_response env s = invoice_response env s'"
  by (simp add: invoice_response_def last_content_def invoice_call_cong [of s s']
        cong: content.case_cong)

section \<open>Properties of the engine\<close>

lemma remaining_steps_apply_delta [simp]: "remaining_steps (apply_delta s d) = remaining_steps s"
  by (simp add: apply_delta_def)

lemma th_executed_save [simp]: "th_executed (save n s st th) = th_executed th"
  by (simp add: save_def)

lemma th_checkpoints_save:
  "th_checkpoints (save n s st th) =
     th_checkpoints th
     @ [\<lparr>cp_seq = Suc (length (th_checkpoints th)), cp_node = n, cp_state = s, cp_status = st\<rparr>]"
  by (simp add: save_def)

lemma the_messages_apply_delta:
  "the_messages (apply_delta s d)
     = the_messages s @ (case d_messages d of None \<Rightarrow> [] | Some new \<Rightarrow> new)"
  by (simp add: the_messages_def apply_delta_def split: option.splits)

lemma the_messages_steps [simp]: "the_messages (s\<lparr>remaining_steps := n\<rparr>) = the_messages s"
  by (simp add: the_messages_def)

lemma append_only_snoc:
  "append_only (cs @ [c]) =
     (append_only cs \<and>
      (cs = [] \<or> prefix (the_messages (cp_state (last cs))) (the_messages (cp_state c))))"
  by (induction cs rule: append_only.induct) auto

lemma extends_save:
  "extends th s \<Longrightarrow> prefix (the_messages s) (the_messages s') \<Longrightarrow>
   append_only (th_checkpoints (save n s' st th))"
  unfolding extends_def th_checkpoints_save append_only_snoc
  by (auto intro: prefix_order.trans)

lemma extends_save2:
  "extends th s \<Longrightarrow> prefix (the_messages s) (the_messages s') \<Longrightarrow>
   prefix (the_messages s') (the_messages s'') \<Longrightarrow> extends (save n s' st th) s''"
  unfolding extends_def th_checkpoints_save append_only_snoc
  by (auto intro: prefix_order.trans)

lemma extends_upd [simp]:
  "extends (th\<lparr>th_executed := x\<rparr>) s = extends th s"
  "extends (th\<lparr>th_marker := y\<rparr>) s = extends th s"
  by (simp_all add: extends_def)

lemma exec_loop_unknown:
  "map_of (g_nodes g) current = None \<Longrightarrow>
   exec_loop g cfg current resume s th = (RFailed (UnknownNodeError current), save current s Failed th)"
  by (subst exec_loop.simps) simp

lemma exec_loop_exhausted:
  "map_of (g_nodes g) current = Some f \<Longrightarrow> remaining_steps s = 0 \<Longrightarrow>
   exec_loop g cfg current None s th = (RFailed StepBudgetExceededError, save current s Failed th)"
  by (subst exec_loop.simps) simp

lemma exec_loop_Suspend:
  "map_of (g_nodes g) current = Some f \<Longrightarrow>
   s1 = (if resume = None then s\<lparr>remaining_steps := remaining_steps s - 1\<rparr> else s) \<Longrightarrow>
   resume \<noteq> None \<or> 0 < remaining_steps s \<Longrightarrow>
   f s1 cfg resume = Suspend prompt \<Longrightarrow>
   exec_loop g cfg current resume s th =
     (RInterrupted prompt,
      save current s1 Interrupted
        (th\<lparr>th_marker := Some (current, prompt), th_executed := th_executed th @ [current]\<rparr>))"
  by (subst exec_loop.simps) (auto simp: Let_def)

lemma exec_loop_Raise:
  "map_of (g_nodes g) current = Some f \<Longrightarrow>
   s1 = (if resume = None then s\<lparr>remaining_steps := remaining_steps s - 1\<rparr> else s) \<Longrightarrow>
   resume \<noteq> None \<or> 0 < remaining_steps s \<Longrightarrow>
   f s1 cfg resume = Raise e \<Longrightarrow>
   exec_loop g cfg current resume s th =
     (RFailed e, save current s1 Failed (th\<lparr>th_executed := th_executed th @ [current]\<rparr>))"
  by (subst exec_loop.simps) (auto simp: Let_def)

lemma exec_loop_Delta:
  "map_of (g_nodes g) current = Some f \<Longrightarrow>
   s1 = (if resume = None then s\<lparr>remaining_steps := remaining_steps s - 1\<rparr> else s) \<Longrightarrow>
   resume \<noteq> None \<or> 0 < remaining_steps s \<Longrightarrow>
   f s1 cfg resume = Delta d \<Longrightarrow>
   s2 = apply_delta s1 d \<Longrightarrow>
   th2 = save current s2 Running (th\<lparr>th_executed := th_executed th @ [current]\<rparr>) \<Longrightarrow>
   exec_loop g cfg current resume s th =
     (case next_node g current s2 cfg of
        Inl e \<Rightarrow> (RFailed e, save current s2 Failed th2)
      | Inr nxt \<Rightarrow>
          if nxt = END then (RCompleted s2, save END s2 Completed th2)
          else exec_loop g cfg nxt None s2 th2)"
  by (subst exec_loop.simps) (auto simp: Let_def)

lemma exec_loop_append_only:
  "extends th s \<Longrightarrow> append_only (th_checkpoints (snd (exec_loop g cfg current resume s th)))"
proof (induction g cfg current resume s th rule: exec_loop.induct)
  case (1 g cfg current resume s th)
  let ?entered = "if resume = None then s\<lparr>remaining_steps := remaining_steps s - 1\<rparr> else s"
  have s1: "prefix (the_messages s) (the_messages ?entered)" by simp
  show ?case
  proof (cases "map_of (g_nodes g) current")
    case None
    with "1.prems" show ?thesis by (simp add: exec_loop_unknown extends_save)
  next
    case (Some f)
    show ?thesis
    proof (cases "resume \<noteq> None \<or> 0 < remaining_steps s")
      case False
      with Some "1.prems" show ?thesis by (simp add: exec_loop_exhausted extends_save)
    next
      case budget: True
      then have budget': "\<not> (resume = None \<and> remaining_steps s = 0)" by auto
      show ?thesis
      proof (cases "f ?entered cfg resume")
        case (Suspend p)
        from exec_loop_Suspend [OF Some refl budget Suspend] "1.prems" s1 show ?thesis
          by (simp add: extends_save)
      next
        case (Raise e)
        from exec_loop_Raise [OF Some refl budget Raise] "1.prems" s1 show ?thesis
          by (simp add: extends_save)
      next
        case (Delta d)
        let ?after = "apply_delta ?entered d"
        let ?saved = "save current ?after Running (th\<lparr>th_executed := th_executed th @ [current]\<rparr>)"
        note step = exec_loop_Delta [OF Some refl budget Delta refl refl, of th]
        have s2: "prefix (the_messages s) (the_messages ?after)"
          by (simp add: the_messages_apply_delta)
        have ext: "extends ?saved ?after"
          using "1.prems" s2 by (intro extends_save2 [where s = s]) simp_all
        show ?thesis
        proof (cases "next_node g current ?after cfg")
          case (Inl e)
          with step ext show ?thesis by (simp add: extends_save)
        next
          case (Inr nxt)
          show ?thesis
          proof (cases "nxt = END")
            case True
            with step Inr ext show ?thesis by (simp add: extends_save)
          next
            case False
            have ih: "append_only (th_checkpoints (snd (exec_loop g cfg nxt None ?after ?saved)))"
              using "1.IH" [OF Some budget' refl Delta refl refl Inr False ext] .
            have eq: "exec_loop g cfg current resume s th = exec_loop g cfg nxt None ?after ?saved"
              using step Inr False by simp
            show ?thesis using ih unfolding eq .
          qed
        qed
      qed
    qed
  qed
qed

lemma extends_last:
  "append_only (th_checkpoints th) \<Longrightarrow>
   extends th (case th_checkpoints th of [] \<Rightarrow> empty_State budget | c # cs \<Rightarrow> cp_state (last (c # cs)))"
  by (auto simp: extends_def split: list.splits)

lemma run_append_only:
  assumes "\<And>t th. store t = Some th \<Longrightarrow> append_only (th_checkpoints th)"
    and "snd (run g budget tid inp cfg store) t = Some th"
  shows "append_only (th_checkpoints th)"
proof -
  let ?th = "case store tid of None \<Rightarrow> new_thread | Some t \<Rightarrow> t"
  let ?s = "case th_checkpoints ?th of [] \<Rightarrow> empty_State budget | c # cs \<Rightarrow> cp_state (last (c # cs))"
  have a: "append_only (th_checkpoints ?th)"
    using assms(1) by (auto simp: new_thread_def split: option.splits)
  have e: "extends ?th ?s" using a by (rule extends_last)
  let ?merged = "\<lambda>ms. apply_delta ?s (messages_delta ms)"
  have e0: "extends ?th (?merged ms)" for ms
    using e by (auto simp: extends_def the_messages_apply_delta intro: prefix_order.trans)
  show ?thesis
  proof (cases "t = tid")
    case False
    with assms show ?thesis
      by (auto simp: run_def Let_def split: graph_input.splits option.splits prod.splits sum.splits)
  next
    case True
    show ?thesis
    proof (cases inp)
      case (Command_resume p)
      show ?thesis
      proof (cases "th_marker ?th")
        case None
        with assms Command_resume show ?thesis by (simp add: run_def Let_def)
      next
        case (Some m)
        obtain node prompt where m: "m = (node, prompt)" by (cases m)
        have "append_only (th_checkpoints (snd (exec_loop g cfg node (Some p) ?s (?th\<lparr>th_marker := None\<rparr>))))"
          using e by (intro exec_loop_append_only) simp
        with assms(2) Command_resume Some m True show ?thesis
          by (simp add: run_def Let_def split: prod.splits)
      qed
    next
      case (Input ms)
      show ?thesis
      proof (cases "th_marker ?th")
        case (Some m)
        obtain node prompt where m: "m = (node, prompt)" by (cases m)
        have "append_only (th_checkpoints (snd (exec_loop g cfg node None (?merged ms) ?th)))"
          using e0 by (intro exec_loop_append_only)
        with assms(2) Input Some m True show ?thesis
          by (simp add: run_def Let_def split: prod.splits)
      next
        case None
        show ?thesis
        proof (cases "next_node g START (?merged ms) cfg")
          case (Inl err)
          have "append_only (th_checkpoints (save START (?merged ms) Failed ?th))"
            using e0 [of ms] by (rule extends_save) simp
          with assms(2) Input None Inl True show ?thesis
            by (simp add: run_def Let_def)
        next
          case (Inr first)
          have "append_only (th_checkpoints (snd (exec_loop g cfg first None (?merged ms) ?th)))"
            using e0 by (intro exec_loop_append_only)
          with assms(2) Input None Inr True show ?thesis
            by (simp add: run_def Let_def split: prod.splits)
        qed
      qed
    qed
  qed
qed

lemma exec_loop_steps:
  "resume = None \<Longrightarrow>
   remaining_steps (cp_state (last (th_checkpoints (snd (exec_loop g cfg current resume s th)))))
     + length (th_executed (snd (exec_loop g cfg current resume s th)))
   = remaining_steps s + length (th_executed th)"
proof (induction g cfg current resume s th rule: exec_loop.induct)
  case (1 g cfg current resume s th)
  note none = \<open>resume = None\<close>
  let ?entered = "if resume = None then s\<lparr>remaining_steps := remaining_steps s - 1\<rparr> else s"
  show ?case
  proof (cases "map_of (g_nodes g) current")
    case None
    then show ?thesis by (simp add: exec_loop_unknown th_checkpoints_save)
  next
    case (Some f)
    show ?thesis
    proof (cases "resume \<noteq> None \<or> 0 < remaining_steps s")
      case False
      with Some show ?thesis by (simp add: exec_loop_exhausted th_checkpoints_save)
    next
      case budget: True
      then have budget': "\<not> (resume = None \<and> remaining_steps s = 0)" by auto
      show ?thesis
      proof (cases "f ?entered cfg resume")
        case (Suspend p)
        from exec_loop_Suspend [OF Some refl budget Suspend] budget none show ?thesis
          by (auto simp: th_checkpoints_save)
      next
        case (Raise e)
        from exec_loop_Raise [OF Some refl budget Raise] budget none show ?thesis
          by (auto simp: th_checkpoints_save)
      next
        case (Delta d)
        let ?after = "apply_delta ?entered d"
        let ?saved = "save current ?after Running (th\<lparr>th_executed := th_executed th @ [current]\<rparr>)"
        note step = exec_loop_Delta [OF Some refl budget Delta refl refl, of th]
        show ?thesis
        proof (cases "next_node g current ?after cfg")
          case (Inl e)
          with step budget none show ?thesis
            by (auto simp: th_checkpoints_save)
        next
          case (Inr nxt)
          show ?thesis
          proof (cases "nxt = END")
            case True
            with step Inr budget none show ?thesis
              by (auto simp: th_checkpoints_save)
          next
            case False
            have ih: "remaining_steps (cp_state (last (th_checkpoints
                        (snd (exec_loop g cfg nxt None ?after ?saved)))))
                      + length (th_executed (snd (exec_loop g cfg nxt None ?after ?saved)))
                    = remaining_steps ?after + length (th_executed ?saved)"
              using "1.IH" [OF Some budget' refl Delta refl refl Inr False] by simp
            have eq: "exec_loop g cfg current resume s th = exec_loop g cfg nxt None ?after ?saved"
              using step Inr False by simp
            show ?thesis using ih budget none unfolding eq
              by auto
          qed
        qed
      qed
    qed
  qed
qed

lemma self_loop_exec:
  "remaining_steps s = n \<Longrightarrow>
   fst (exec_loop self_loop cfg ''loop'' None s th) = RFailed StepBudgetExceededError \<and>
   th_executed (snd (exec_loop self_loop cfg ''loop'' None s th))
     = th_executed th @ replicate n ''loop'' \<and>
   cp_status (last (th_checkpoints (snd (exec_loop self_loop cfg ''loop'' None s th)))) = Failed"
proof (induction n arbitrary: s th)
  case 0
  then show ?case
    by (simp add: exec_loop_exhausted [where f = "\<lambda>state config resume. Delta empty_delta"]
          self_loop_def th_checkpoints_save)
next
  case (Suc n)
  have node: "map_of (g_nodes self_loop) ''loop'' = Some (\<lambda>state config resume. Delta empty_delta)"
    by (simp add: self_loop_def)
  let ?entered = "s\<lparr>remaining_steps := remaining_steps s - 1\<rparr>"
  let ?after = "apply_delta ?entered empty_delta"
  let ?saved = "save ''loop'' ?after Running (th\<lparr>th_executed := th_executed th @ [''loop'']\<rparr>)"
  have r: "remaining_steps ?after = n" using Suc.prems by simp
  have budget: "None \<noteq> (None :: string option) \<or> 0 < remaining_steps s"
    using Suc.prems by simp
  have nxt: "next_node self_loop ''loop'' ?after cfg = Inr ''loop''"
    by (simp add: next_node_def self_loop_def START_def)
  have step: "exec_loop self_loop cfg ''loop'' None s th
                = exec_loop self_loop cfg ''loop'' None ?after ?saved"
    using exec_loop_Delta [OF node _ budget refl refl refl, of ?entered cfg th] nxt
    by (simp add: END_def)
  from Suc.IH [OF r, of ?saved] step show ?case
    by (simp add: replicate_append_same)
qed

section \<open>Properties of \<^verbatim>\<open>run_agent_with_input\<close>\<close>

lemma run_resume_no_marker:
  "no_pending store tid \<Longrightarrow>
   run g budget tid (Command_resume p) cfg store = (RFailed NoPendingInterruptError, store)"
  by (auto simp: run_def no_pending_def new_thread_def Let_def split: option.splits)

lemma invoke_resume_no_marker:
  "no_pending store (cfg_thread_id cfg) \<Longrightarrow>
   invoke g budget (Command_resume p) cfg store = (Inl NoPendingInterruptError, store)"
  by (simp add: invoke_def run_resume_no_marker)

lemma invoke_graph_fresh:
  "invoke_graph agent_graph (Some u) None config st
     = agent_graph (Input [HumanMessage (Text u)]) config st"
  by (simp add: invoke_graph_def truthy_def new_HumanMessage_def)

lemma invoke_graph_resume_falls_back:
  "p \<noteq> [] \<Longrightarrow> agent_graph (Command_resume p) config st = (Inl e, st1) \<Longrightarrow>
   invoke_graph agent_graph user_input (Some p) config st
     = agent_graph (Input [HumanMessage (Text p)]) config st1"
  by (simp add: invoke_graph_def truthy_def)

lemma run_agent_resume_falls_back:
  "p \<noteq> [] \<Longrightarrow>
   agent_graph (Command_resume p) (make_config thread_id user_id uuid4) st = (Inl e, st1) \<Longrightarrow>
   run_agent_with_input agent_graph user_input thread_id user_id (Some p) uuid4 st
     = run_agent_with_input agent_graph (Some p) thread_id user_id None uuid4 st1"
  by (simp add: run_agent_with_input_def invoke_graph_fresh invoke_graph_resume_falls_back)

lemma cfg_thread_id_make_config:
  "cfg_thread_id (make_config thread_id user_id uuid4) = effective_thread_id thread_id uuid4"
  by (simp add: make_config_def)

lemma snd_run_agent_with_input_fresh:
  "snd (run_agent_with_input (invoke g budget) (Some u) thread_id user_id None uuid4 st)
     = snd (run g budget (effective_thread_id thread_id uuid4) (Input [HumanMessage (Text u)])
              (make_config thread_id user_id uuid4) st)"
  by (cases "run g budget (effective_thread_id thread_id uuid4) (Input [HumanMessage (Text u)])
               (make_config thread_id user_id uuid4) st")
     (auto simp: run_agent_with_input_def invoke_graph_fresh invoke_def cfg_thread_id_make_config
        Let_def split: run_result.splits)








section \<open>The claims\<close>

text \<open>
  Claim C7. For every State, \<^verbatim>\<open>should_interrupt\<close> returns a label of the label-to-node map of
  the conditional edge. It returns \<^verbatim>\<open>"continue"\<close> exactly when \<open>customer_id\<close> is set, that is, the
  key is in the State and its value is not \<^verbatim>\<open>None\<close>, and the edge then leads to \<^verbatim>\<open>load_memory\<close>;
  it returns \<^verbatim>\<open>"interrupt"\<close> exactly when the key is missing or holds \<^verbatim>\<open>None\<close>, and the edge then
  leads to \<^verbatim>\<open>human_input\<close>. The label is a function of the State alone: it does not depend on
  the configuration, and as a function it has no effect on the State.
\<close>

theorem should_interrupt_label:
  "map_of verify_routes (should_interrupt s cfg) \<noteq> None
   \<and> (should_interrupt s cfg = ''continue'') = (\<exists>v. customer_id s = Some (PyStr v))
   \<and> (should_interrupt s cfg = ''interrupt'')
       = (customer_id s = None \<or> customer_id s = Some PyNone)
   \<and> next_node (multi_agent_final tools load_user_memory) ''verify_info'' s cfg
       = Inr (if customer_id s = None \<or> customer_id s = Some PyNone then ''human_input''
              else ''load_memory'')
   \<and> should_interrupt s cfg = should_interrupt s cfg'"
proof (cases "customer_id s")
  case None
  then show ?thesis
    by (simp add: should_interrupt_def get_customer_id_def verify_routes_def next_node_def
          multi_agent_final_def START_def)
next
  case (Some v)
  then show ?thesis
    by (cases v)
       (simp_all add: should_interrupt_def get_customer_id_def verify_routes_def next_node_def
          multi_agent_final_def START_def)
qed

text \<open>
  Claim C9. When \<^verbatim>\<open>invoice_assistant\<close> runs on a State with no \<^verbatim>\<open>customer_id\<close> key, the customer id
  it uses is the default \<^verbatim>\<open>"1"\<close>. Whatever the request, the one tool call it makes is a call of
  one of the three invoice tools with \<^verbatim>\<open>"1"\<close> as the customer argument (alone, or after the
  invoice id for the employee lookup), and the node's answer is made from what the tool
  environment returns for exactly that call. The node returns what it returns on the same
  State with \<^verbatim>\<open>customer_id = "1"\<close>, always a delta with one assistant message: it neither raises
  nor suspends to ask for verification.
\<close>

theorem invoice_assistant_default_customer:
  assumes "customer_id s = None"
  shows "invoice_customer s = PyStr ''1''
     \<and> fst (invoice_call s user_input_lower)
           \<in> set [''get_invoices_sorted_by_unit_price'', ''get_employee_by_invoice_and_customer'',
                  ''get_invoices_by_customer_sorted_by_date'']
     \<and> (snd (invoice_call s user_input_lower) = [PyStr ''1'']
         \<or> (\<exists>invoice_id. invoice_id \<noteq> []
               \<and> invoice_call s user_input_lower
                   = (''get_employee_by_invoice_and_customer'', [PyStr invoice_id, PyStr ''1''])))
     \<and> (\<forall>user_input. last_content s ''Tell me about my invoices'' = Text user_input \<longrightarrow>
           invoice_assistant env s cfg
             = Delta (messages_delta [AIMessage (Text
                 (case env (fst (invoice_call s (lower user_input)))
                           (snd (invoice_call s (lower user_input))) of
                    Inr tool_result \<Rightarrow>
                      if tool_truthy tool_result
                      then ''Here's what I found about your invoices:'' @ [CHR 0x0A, CHR 0x0A]
                             @ str_of tool_result
                      else ''I couldn't find any invoice information for your account.''
                  | Inl tool_error \<Rightarrow> invoice_tool_error))]))
     \<and> invoice_assistant env s cfg
         = invoice_assistant env (s\<lparr>customer_id := Some (PyStr ''1'')\<rparr>) cfg
     \<and> (\<exists>c. invoice_assistant env s cfg = Delta (messages_delta [AIMessage (Text c)]))"
proof (intro conjI allI impI)
  show c: "invoice_customer s = PyStr ''1''"
    using assms by (simp add: invoice_customer_def)
  show "fst (invoice_call s user_input_lower)
           \<in> set [''get_invoices_sorted_by_unit_price'', ''get_employee_by_invoice_and_customer'',
                  ''get_invoices_by_customer_sorted_by_date'']"
    by (simp add: invoice_call_def invoice_select_def Let_def)
  show "snd (invoice_call s user_input_lower) = [PyStr ''1'']
         \<or> (\<exists>invoice_id. invoice_id \<noteq> []
               \<and> invoice_call s user_input_lower
                   = (''get_employee_by_invoice_and_customer'', [PyStr invoice_id, PyStr ''1'']))"
    using c by (auto simp: invoice_call_def Let_def truthy_def split: prod.splits option.splits)
  have c': "invoice_customer (s\<lparr>customer_id := Some (PyStr ''1'')\<rparr>) = PyStr ''1''"
    by (simp add: invoice_customer_def)
  have "invoice_response env s = invoice_response env (s\<lparr>customer_id := Some (PyStr ''1'')\<rparr>)"
    by (rule invoice_response_cong) (simp_all add: c c')
  then show "invoice_assistant env s cfg
         = invoice_assistant env (s\<lparr>customer_id := Some (PyStr ''1'')\<rparr>) cfg"
    by (simp add: invoice_assistant_def)
  show "\<exists>c. invoice_assistant env s cfg = Delta (messages_delta [AIMessage (Text c)])"
    by (rule invoice_assistant_total)
next
  fix user_input
  assume "last_content s ''Tell me about my invoices'' = Text user_input"
  then show "invoice_assistant env s cfg
             = Delta (messages_delta [AIMessage (Text
                 (case env (fst (invoice_call s (lower user_input)))
                           (snd (invoice_call s (lower user_input))) of
                    Inr tool_result \<Rightarrow>
                      if tool_truthy tool_result
                      then ''Here's what I found about your invoices:'' @ [CHR 0x0A, CHR 0x0A]
                             @ str_of tool_result
                      else ''I couldn't find any invoice information for your account.''
                  | Inl tool_error \<Rightarrow> invoice_tool_error))])"
    by (cases "invoice_call s (lower user_input)")
       (simp add: invoice_assistant_def invoice_response_def split: sum.splits)
qed

theorem invoice_assistant_default_customer_witness:
  "customer_id (fresh_State\<lparr>messages := Some [HumanMessage
       (Text ''Who was the support employee for invoice #12?'')]\<rparr>) = None
   \<and> invoice_call (fresh_State\<lparr>messages := Some [HumanMessage
         (Text ''Who was the support employee for invoice #12?'')]\<rparr>)
        (lower ''Who was the support employee for invoice #12?'')
       = (''get_employee_by_invoice_and_customer'', [PyStr ''12'', PyStr ''1''])
   \<and> invoice_assistant only_customer_one
        (fresh_State\<lparr>messages := Some [HumanMessage
           (Text ''Who was the support employee for invoice #12?'')]\<rparr>)
        \<lparr>cfg_thread_id = ''t1'', cfg_user_id = None\<rparr>
       = Delta (messages_delta [AIMessage (Text
           (''Here's what I found about your invoices:'' @ [CHR 0x0A, CHR 0x0A] @ ''[(1,)]''))])"
proof -
  let ?s = "fresh_State\<lparr>messages := Some [HumanMessage
              (Text ''Who was the support employee for invoice #12?'')]\<rparr>"
  let ?cfg = "\<lparr>cfg_thread_id = ''t1'', cfg_user_id = None\<rparr>"
  have h: "customer_id ?s = None"
    by (simp add: fresh_State_def empty_State_def)
  have l: "last_content ?s ''Tell me about my invoices''
             = Text ''Who was the support employee for invoice #12?''"
    by (simp add: last_content_def)
  have call: "invoice_call ?s (lower ''Who was the support employee for invoice #12?'')
       = (''get_employee_by_invoice_and_customer'', [PyStr ''12'', PyStr ''1''])"
    by code_simp
  have answer: "only_customer_one ''get_employee_by_invoice_and_customer'' [PyStr ''12'', PyStr ''1'']
                  = Inr (StrVal ''[(1,)]'')"
    by (simp add: only_customer_one_def)
  from invoice_assistant_default_customer [OF h, of _ only_customer_one ?cfg] l
  have "invoice_assistant only_customer_one ?s ?cfg
          = Delta (messages_delta [AIMessage (Text
              (case only_customer_one
                      (fst (invoice_call ?s (lower ''Who was the support employee for invoice #12?'')))
                      (snd (invoice_call ?s (lower ''Who was the support employee for invoice #12?''))) of
                 Inr tool_result \<Rightarrow>
                   if tool_truthy tool_result
                   then ''Here's what I found about your invoices:'' @ [CHR 0x0A, CHR 0x0A]
                          @ str_of tool_result
                   else ''I couldn't find any invoice information for your account.''
               | Inl tool_error \<Rightarrow> invoice_tool_error))])"
    by blast
  then have "invoice_assistant only_customer_one ?s ?cfg
       = Delta (messages_delta [AIMessage (Text
           (''Here's what I found about your invoices:'' @ [CHR 0x0A, CHR 0x0A] @ ''[(1,)]''))])"
    by (simp add: call answer)
  with h call show ?thesis by simp
qed

text \<open>
  Claim C10. \<^verbatim>\<open>music_assistant\<close> and \<^verbatim>\<open>invoice_assistant\<close> are total at the node boundary: for
  every State and every behaviour of the tools they return a delta with exactly one new
  assistant message; no exception escapes and neither suspends. An exception inside the body
  (a message whose content is a list, or the unguarded \<^verbatim>\<open>index\<close> of the \<^verbatim>\<open>song\<close> branch) becomes
  the apology of the outer handler, and an exception raised by the selected tool becomes the
  apology of the inner handler.
\<close>

theorem assistants_never_raise:
  "(\<exists>c. music_assistant env s cfg = Delta (messages_delta [AIMessage (Text c)]))
   \<and> (\<exists>c. invoice_assistant env s cfg = Delta (messages_delta [AIMessage (Text c)]))
   \<and> (\<forall>e. music_response env s = Inl e \<longrightarrow>
         music_assistant env s cfg = Delta (messages_delta [AIMessage (Text music_apology)]))
   \<and> (\<forall>e. invoice_response env s = Inl e \<longrightarrow>
         invoice_assistant env s cfg = Delta (messages_delta [AIMessage (Text invoice_apology)]))
   \<and> (\<forall>user_input selected_tool param e.
         last_content s ''Tell me about music'' = Text user_input \<longrightarrow>
         music_select user_input = Inr (Some (selected_tool, param)) \<longrightarrow>
         env selected_tool [PyStr param] = Inl e \<longrightarrow>
         music_assistant env s cfg
           = Delta (messages_delta [AIMessage (Text (music_tool_error param))]))
   \<and> (\<forall>user_input selected_tool args e.
         last_content s ''Tell me about my invoices'' = Text user_input \<longrightarrow>
         invoice_call s (lower user_input) = (selected_tool, args) \<longrightarrow>
         env selected_tool args = Inl e \<longrightarrow>
         invoice_assistant env s cfg
           = Delta (messages_delta [AIMessage (Text invoice_tool_error)]))"
proof (intro conjI allI impI)
  show "\<exists>c. music_assistant env s cfg = Delta (messages_delta [AIMessage (Text c)])"
    by (rule music_assistant_total)
  show "\<exists>c. invoice_assistant env s cfg = Delta (messages_delta [AIMessage (Text c)])"
    by (rule invoice_assistant_total)
next
  fix e assume "music_response env s = Inl e"
  then show "music_assistant env s cfg = Delta (messages_delta [AIMessage (Text music_apology)])"
    by (simp add: music_assistant_def)
next
  fix e assume "invoice_response env s = Inl e"
  then show "invoice_assistant env s cfg = Delta (messages_delta [AIMessage (Text invoice_apology)])"
    by (simp add: invoice_assistant_def)
next
  fix user_input selected_tool param e
  assume "last_content s ''Tell me about music'' = Text user_input"
    and "music_select user_input = Inr (Some (selected_tool, param))"
    and "env selected_tool [PyStr param] = Inl e"
  then show "music_assistant env s cfg
               = Delta (messages_delta [AIMessage (Text (music_tool_error param))])"
    by (simp add: music_assistant_def music_response_def)
next
  fix user_input selected_tool args e
  assume "last_content s ''Tell me about my invoices'' = Text user_input"
    and "invoice_call s (lower user_input) = (selected_tool, args)"
    and "env selected_tool args = Inl e"
  then show "invoice_assistant env s cfg
               = Delta (messages_delta [AIMessage (Text invoice_tool_error)])"
    by (simp add: invoice_assistant_def invoice_response_def)
qed

theorem assistants_never_raise_witness:
  "music_response tool_down (fresh_State\<lparr>messages := Some [HumanMessage (Text ''any good songs?'')]\<rparr>)
     = Inl (ValueError (CHR 0x27 # ''song'' @ CHR 0x27 # '' is not in list''))
   \<and> music_assistant tool_down
         (fresh_State\<lparr>messages := Some [HumanMessage (Text ''any good songs?'')]\<rparr>)
         \<lparr>cfg_thread_id = ''t1'', cfg_user_id = None\<rparr>
       = Delta (messages_delta [AIMessage (Text music_apology)])
   \<and> invoice_response tool_down (fresh_State\<lparr>messages := Some [HumanMessage (Blocks [''hi''])]\<rparr>)
       = Inl (AttributeError ''lower'')
   \<and> invoice_assistant tool_down
         (fresh_State\<lparr>messages := Some [HumanMessage (Blocks [''hi''])]\<rparr>)
         \<lparr>cfg_thread_id = ''t1'', cfg_user_id = None\<rparr>
       = Delta (messages_delta [AIMessage (Text invoice_apology)])
   \<and> music_assistant tool_down
         (fresh_State\<lparr>messages := Some [HumanMessage (Text ''Tracks by artist Queen'')]\<rparr>)
         \<lparr>cfg_thread_id = ''t1'', cfg_user_id = None\<rparr>
       = Delta (messages_delta [AIMessage (Text (music_tool_error ''queen''))])
   \<and> invoice_assistant tool_down
         (fresh_State\<lparr>messages := Some [HumanMessage (Text ''Show my invoices'')]\<rparr>)
         \<lparr>cfg_thread_id = ''t1'', cfg_user_id = None\<rparr>
       = Delta (messages_delta [AIMessage (Text invoice_tool_error)])"
proof -
  let ?songs = "fresh_State\<lparr>messages := Some [HumanMessage (Text ''any good songs?'')]\<rparr>"
  let ?queen = "fresh_State\<lparr>messages := Some [HumanMessage (Text ''Tracks by artist Queen'')]\<rparr>"
  let ?invoices = "fresh_State\<lparr>messages := Some [HumanMessage (Text ''Show my invoices'')]\<rparr>"
  let ?blocks = "fresh_State\<lparr>messages := Some [HumanMessage (Blocks [''hi''])]\<rparr>"
  let ?cfg = "\<lparr>cfg_thread_id = ''t1'', cfg_user_id = None\<rparr>"
  have m: "music_response tool_down ?songs
             = Inl (ValueError (CHR 0x27 # ''song'' @ CHR 0x27 # '' is not in list''))"
    by code_simp
  have i: "invoice_response tool_down ?blocks = Inl (AttributeError ''lower'')"
    by code_simp
  from assistants_never_raise [of tool_down ?songs ?cfg] m
  have a: "music_assistant tool_down ?songs ?cfg = Delta (messages_delta [AIMessage (Text music_apology)])"
    by blast
  from assistants_never_raise [of tool_down ?blocks ?cfg] i
  have b: "invoice_assistant tool_down ?blocks ?cfg
             = Delta (messages_delta [AIMessage (Text invoice_apology)])"
    by blast
  have q1: "last_content ?queen ''Tell me about music'' = Text ''Tracks by artist Queen''"
    by code_simp
  have q2: "music_select ''Tracks by artist Queen'' = Inr (Some (''get_tracks_by_artist'', ''queen''))"
    by code_simp
  have q3: "tool_down ''get_tracks_by_artist'' [PyStr ''queen'']
              = Inl (Exn ''OperationalError'' ''unable to open database file'' None)"
    by (simp add: tool_down_def)
  from assistants_never_raise [of tool_down ?queen ?cfg] q1 q2 q3
  have c: "music_assistant tool_down ?queen ?cfg
             = Delta (messages_delta [AIMessage (Text (music_tool_error ''queen''))])"
    by blast
  have v1: "last_content ?invoices ''Tell me about my invoices'' = Text ''Show my invoices''"
    by code_simp
  have v2: "invoice_call ?invoices (lower ''Show my invoices'')
              = (''get_invoices_by_customer_sorted_by_date'', [PyStr ''1''])"
    by code_simp
  have v3: "tool_down ''get_invoices_by_customer_sorted_by_date'' [PyStr ''1'']
              = Inl (Exn ''OperationalError'' ''unable to open database file'' None)"
    by (simp add: tool_down_def)
  from assistants_never_raise [of tool_down ?invoices ?cfg] v1 v2 v3
  have d: "invoice_assistant tool_down ?invoices ?cfg
             = Delta (messages_delta [AIMessage (Text invoice_tool_error)])"
    by blast
  from m i a b c d show ?thesis by simp
qed

text \<open>
  Claim C2. The merge of a node's delta appends the delta's messages to the existing message
  sequence, overwrites \<open>customer_id\<close> and \<open>loaded_memory\<close> when the delta names them and leaves
  them unchanged when it does not. Along every run, on every thread, no earlier message is
  replaced or removed: if the checkpoint histories of the store are append-only in their
  messages before a run (of any graph, fresh or resumed), they are after it.
\<close>

theorem messages_append_only:
  "the_messages (apply_delta s d)
     = the_messages s @ (case d_messages d of None \<Rightarrow> [] | Some new \<Rightarrow> new)
   \<and> customer_id (apply_delta s d)
       = (case d_customer_id d of None \<Rightarrow> customer_id s | Some v \<Rightarrow> Some v)
   \<and> loaded_memory (apply_delta s d)
       = (case d_loaded_memory d of None \<Rightarrow> loaded_memory s | Some m \<Rightarrow> Some m)
   \<and> ((\<forall>t th. store t = Some th \<longrightarrow> append_only (th_checkpoints th)) \<longrightarrow>
       (\<forall>t th. snd (run g budget tid inp cfg store) t = Some th \<longrightarrow>
          append_only (th_checkpoints th)))"
proof (intro conjI impI allI)
  show "the_messages (apply_delta s d)
          = the_messages s @ (case d_messages d of None \<Rightarrow> [] | Some new \<Rightarrow> new)"
    by (rule the_messages_apply_delta)
  show "customer_id (apply_delta s d)
          = (case d_customer_id d of None \<Rightarrow> customer_id s | Some v \<Rightarrow> Some v)"
    by (simp add: apply_delta_def)
  show "loaded_memory (apply_delta s d)
          = (case d_loaded_memory d of None \<Rightarrow> loaded_memory s | Some m \<Rightarrow> Some m)"
    by (simp add: apply_delta_def)
next
  fix t th
  assume inv: "\<forall>t th. store t = Some th \<longrightarrow> append_only (th_checkpoints th)"
    and after: "snd (run g budget tid inp cfg store) t = Some th"
  from inv have "\<And>t th. store t = Some th \<Longrightarrow> append_only (th_checkpoints th)"
    by blast
  then show "append_only (th_checkpoints th)"
    using after by (rule run_append_only)
qed

theorem messages_append_only_witness:
  "append_only (th_checkpoints (the (snd (run (build_complete_agent_system one_row no_preferences 25)
       25 ''t1'' (Input [HumanMessage (Text ''show my invoices'')])
       \<lparr>cfg_thread_id = ''t1'', cfg_user_id = None\<rparr> after_first_run) ''t1'')))
   \<and> length (th_checkpoints (the (snd (run (build_complete_agent_system one_row no_preferences 25)
       25 ''t1'' (Input [HumanMessage (Text ''show my invoices'')])
       \<lparr>cfg_thread_id = ''t1'', cfg_user_id = None\<rparr> after_first_run) ''t1''))) = 10"
proof -
  let ?g = "build_complete_agent_system one_row no_preferences 25"
  let ?cfg = "\<lparr>cfg_thread_id = ''t1'', cfg_user_id = None\<rparr>"
  let ?after = "snd (run ?g 25 ''t1'' (Input [HumanMessage (Text ''show my invoices'')]) ?cfg
                       after_first_run)"
  have first: "after_first_run = snd (run ?g 25 ''t1'' (Input [HumanMessage (Text ''hello'')]) ?cfg Map.empty)"
    by (simp add: after_first_run_def agent_system_def snd_run_agent_with_input_fresh
          make_config_def effective_thread_id_def truthy_def)
  have empty: "\<forall>t th. (Map.empty :: store) t = Some th \<longrightarrow> append_only (th_checkpoints th)"
    by simp
  from messages_append_only [of _ _ Map.empty ?g 25 "''t1''" "Input [HumanMessage (Text ''hello'')]" ?cfg]
    empty
  have before: "\<forall>t th. after_first_run t = Some th \<longrightarrow> append_only (th_checkpoints th)"
    unfolding first by blast
  have there: "?after ''t1'' \<noteq> None"
    by code_simp
  have len: "length (th_checkpoints (the (?after ''t1''))) = 10"
    by code_simp
  from messages_append_only [of _ _ after_first_run ?g 25 "''t1''"
      "Input [HumanMessage (Text ''show my invoices'')]" ?cfg] before
  have "\<forall>t th. ?after t = Some th \<longrightarrow> append_only (th_checkpoints th)"
    by blast
  with there have "append_only (th_checkpoints (the (?after ''t1'')))"
    by auto
  with len show ?thesis by simp
qed

text \<open>
  Claim C5. A graph that always routes back to itself, started with a budget of \<open>n\<close> steps,
  fails with StepBudgetExceededError after exactly \<open>n\<close> node executions, and the thread's
  latest checkpoint is Failed: three executions for \<open>remainingSteps = 3\<close>. The budget is
  decremented once per node execution, in every run of every graph: what is left of the
  budget at the end of the loop and the number of nodes executed add up to the budget the
  loop started with, so no run executes more nodes than its budget.
\<close>

theorem step_budget_bounds_run:
  "fst (run self_loop budget tid (Input ms) cfg Map.empty) = RFailed StepBudgetExceededError
   \<and> map_option th_executed (snd (run self_loop budget tid (Input ms) cfg Map.empty) tid)
       = Some (replicate budget ''loop'')
   \<and> map_option (\<lambda>th. cp_status (last (th_checkpoints th)))
         (snd (run self_loop budget tid (Input ms) cfg Map.empty) tid) = Some Failed
   \<and> map_option th_executed (snd (run self_loop 3 tid (Input ms) cfg Map.empty) tid)
       = Some [''loop'', ''loop'', ''loop'']
   \<and> remaining_steps (cp_state (last (th_checkpoints (snd (exec_loop g cfg current None s th)))))
         + length (th_executed (snd (exec_loop g cfg current None s th)))
       = remaining_steps s + length (th_executed th)"
proof -
  have first: "next_node self_loop START (apply_delta (empty_State n) (messages_delta ms)) cfg
                 = Inr ''loop''" for n
    by (simp add: next_node_def self_loop_def)
  have r: "remaining_steps (apply_delta (empty_State n) (messages_delta ms)) = n" for n
    by (simp add: empty_State_def)
  have run: "run self_loop n tid (Input ms) cfg Map.empty
       = (fst (exec_loop self_loop cfg ''loop'' None
                 (apply_delta (empty_State n) (messages_delta ms)) new_thread),
          [tid \<mapsto> snd (exec_loop self_loop cfg ''loop'' None
                          (apply_delta (empty_State n) (messages_delta ms)) new_thread)])" for n
    using first [of n] by (simp add: run_def new_thread_def split: prod.splits)
  have three: "replicate 3 ''loop'' = [''loop'', ''loop'', ''loop'']"
    by (simp add: numeral_3_eq_3)
  show ?thesis
    using self_loop_exec [OF r [of budget], of cfg new_thread]
      self_loop_exec [OF r [of 3], of cfg new_thread]
      exec_loop_steps [OF refl, of g cfg current s th]
    by (simp add: run new_thread_def three)
qed

text \<open>
  Claim C3 (as amended). A resume call through \<^verbatim>\<open>run_agent_with_input\<close> never fails with the
  error of the resume itself. When the graph's resume invocation returns, the call returns
  status \<^verbatim>\<open>complete\<close> with what it returned. When the resume invocation raises (as an engine
  does that rejects a resume with NoPendingInterruptError because no interrupt is pending),
  the exception is caught and the graph is invoked a second time, on what the first
  invocation left, with the resume payload as a new human message: the call returns exactly
  what a fresh call with that message returns.
\<close>

theorem resume_error_is_answered_by_fresh_run:
  assumes "payload \<noteq> []"
  shows "(\<forall>res st1.
            agent_graph (Command_resume payload) (make_config thread_id user_id uuid4) st
              = (Inr res, st1) \<longrightarrow>
            run_agent_with_input agent_graph user_input thread_id user_id (Some payload) uuid4 st
              = (\<lparr>res_status = ''complete'', res_result = Some res, res_message = None,
                  res_error_details = None,
                  res_thread_id = effective_thread_id thread_id uuid4\<rparr>, st1))
     \<and> (\<forall>e st1.
            agent_graph (Command_resume payload) (make_config thread_id user_id uuid4) st
              = (Inl e, st1) \<longrightarrow>
            invoke_graph agent_graph user_input (Some payload)
                (make_config thread_id user_id uuid4) st
              = agent_graph (Input [HumanMessage (Text payload)])
                  (make_config thread_id user_id uuid4) st1
            \<and> run_agent_with_input agent_graph user_input thread_id user_id (Some payload) uuid4 st
                = run_agent_with_input agent_graph (Some payload) thread_id user_id None uuid4 st1)"
proof (intro conjI allI impI)
  fix res st1
  assume "agent_graph (Command_resume payload) (make_config thread_id user_id uuid4) st
            = (Inr res, st1)"
  with assms
  show "run_agent_with_input agent_graph user_input thread_id user_id (Some payload) uuid4 st
              = (\<lparr>res_status = ''complete'', res_result = Some res, res_message = None,
                  res_error_details = None,
                  res_thread_id = effective_thread_id thread_id uuid4\<rparr>, st1)"
    by (simp add: run_agent_with_input_def invoke_graph_def truthy_def)
next
  fix e st1
  assume raised: "agent_graph (Command_resume payload) (make_config thread_id user_id uuid4) st
            = (Inl e, st1)"
  from assms raised
  show "invoke_graph agent_graph user_input (Some payload) (make_config thread_id user_id uuid4) st
          = agent_graph (Input [HumanMessage (Text payload)])
              (make_config thread_id user_id uuid4) st1"
    by (rule invoke_graph_resume_falls_back)
  from assms raised
  show "run_agent_with_input agent_graph user_input thread_id user_id (Some payload) uuid4 st
          = run_agent_with_input agent_graph (Some payload) thread_id user_id None uuid4 st1"
    by (rule run_agent_resume_falls_back)
qed

theorem resume_error_is_answered_by_fresh_run_witness:
  "''1'' \<noteq> []
   \<and> rejecting_graph (Command_resume ''1'') (make_config (Some ''t1'') None ''u1'') []
       = (Inl NoPendingInterruptError, [])
   \<and> run_agent_with_input rejecting_graph None (Some ''t1'') None (Some ''1'') ''u1'' []
       = run_agent_with_input rejecting_graph (Some ''1'') (Some ''t1'') None None ''u1'' []
   \<and> returning_graph (Command_resume ''1'') (make_config (Some ''t1'') None ''u1'') []
       = (Inr (empty_State 25), [])
   \<and> run_agent_with_input returning_graph None (Some ''t1'') None (Some ''1'') ''u1'' []
       = (\<lparr>res_status = ''complete'', res_result = Some (empty_State 25), res_message = None,
           res_error_details = None, res_thread_id = ''t1''\<rparr>, [])"
proof -
  have p: "''1'' \<noteq> []"
    by simp
  have rejected: "rejecting_graph (Command_resume ''1'') (make_config (Some ''t1'') None ''u1'') []
       = (Inl NoPendingInterruptError, [])"
    by (simp add: rejecting_graph_def)
  have returned: "returning_graph (Command_resume ''1'') (make_config (Some ''t1'') None ''u1'') []
       = (Inr (empty_State 25), [])"
    by (simp add: returning_graph_def)
  from resume_error_is_answered_by_fresh_run [OF p, of rejecting_graph "Some ''t1''" None "''u1''" "[]" None]
    rejected
  have a: "run_agent_with_input rejecting_graph None (Some ''t1'') None (Some ''1'') ''u1'' []
       = run_agent_with_input rejecting_graph (Some ''1'') (Some ''t1'') None None ''u1'' []"
    by blast
  from resume_error_is_answered_by_fresh_run [OF p, of returning_graph "Some ''t1''" None "''u1''" "[]" None]
    returned
  have "run_agent_with_input returning_graph None (Some ''t1'') None (Some ''1'') ''u1'' []
       = (\<lparr>res_status = ''complete'', res_result = Some (empty_State 25), res_message = None,
           res_error_details = None,
           res_thread_id = effective_thread_id (Some ''t1'') ''u1''\<rparr>, [])"
    by blast
  then have b: "run_agent_with_input returning_graph None (Some ''t1'') None (Some ''1'') ''u1'' []
       = (\<lparr>res_status = ''complete'', res_result = Some (empty_State 25), res_message = None,
           res_error_details = None, res_thread_id = ''t1''\<rparr>, [])"
    by (simp add: effective_thread_id_def truthy_def)
  from p rejected a returned b show ?thesis by simp
qed

text \<open>
  Claim C3 as stated fails, whichever way the graph treats a resume that has nothing to
  resume. A graph that rejects it with NoPendingInterruptError and changes nothing: the
  caller gets status \<^verbatim>\<open>complete\<close>, and the graph has run the payload as a fresh input. A graph
  that returns: the caller gets status \<^verbatim>\<open>complete\<close>. In neither case does the call fail with
  NoPendingInterruptError.
\<close>

theorem resume_without_marker_counterexample:
  "rejecting_graph (Command_resume ''1'') (make_config (Some ''t1'') None ''u1'') []
     = (Inl NoPendingInterruptError, [])
   \<and> res_status (fst (run_agent_with_input rejecting_graph None (Some ''t1'') None (Some ''1'')
                        ''u1'' [])) = ''complete''
   \<and> snd (run_agent_with_input rejecting_graph None (Some ''t1'') None (Some ''1'') ''u1'' [])
       = [Input [HumanMessage (Text ''1'')]]
   \<and> res_status (fst (run_agent_with_input returning_graph None (Some ''t1'') None (Some ''1'')
                        ''u1'' [])) = ''complete''
   \<and> snd (run_agent_with_input returning_graph None (Some ''t1'') None (Some ''1'') ''u1'' []) = []"
  by code_simp

text \<open>
  Claim C4 (as amended). An exception that escapes a node handler fails the run: the loop
  stops at that node with a Failed checkpoint and the exception itself as the error, and
  \<^verbatim>\<open>run_agent_with_input\<close> returns status \<^verbatim>\<open>error\<close> with \<^verbatim>\<open>str(e)\<close> as the message after that single
  invocation. The calling layer does retry: \<^verbatim>\<open>run_agent_with_input\<close> answers a resume invocation
  that raised with one fresh invocation carrying the payload as the input message, and
  \<^verbatim>\<open>ChatResumeView.post\<close> answers a result with status \<^verbatim>\<open>error\<close> with one more call of
  \<^verbatim>\<open>run_agent_with_input\<close>, the message as a fresh input.
\<close>

theorem node_exception_fails_run_and_caller_retries:
  "(map_of (g_nodes g) current = Some f \<longrightarrow> 1 < remaining_steps s \<longrightarrow>
      f (s\<lparr>remaining_steps := remaining_steps s - 1\<rparr>) cfg None = Raise e \<longrightarrow>
      exec_loop g cfg current None s th
        = (RFailed e, save current (s\<lparr>remaining_steps := remaining_steps s - 1\<rparr>) Failed
                        (th\<lparr>th_executed := th_executed th @ [current]\<rparr>)))
   \<and> (agent_graph (Input [HumanMessage (Text u)]) (make_config thread_id user_id uuid4) st
        = (Inl e, st') \<longrightarrow>
      interrupt_message e = None \<longrightarrow>
      run_agent_with_input agent_graph (Some u) thread_id user_id None uuid4 st
        = (\<lparr>res_status = ''error'', res_result = None, res_message = Some (exn_str e),
            res_error_details = Some (format_exc e),
            res_thread_id = effective_thread_id thread_id uuid4\<rparr>, st'))
   \<and> (payload \<noteq> [] \<longrightarrow>
      agent_graph (Command_resume payload) (make_config thread_id user_id uuid4) st = (Inl e, st') \<longrightarrow>
      run_agent_with_input agent_graph user_input thread_id user_id (Some payload) uuid4 st
        = run_agent_with_input agent_graph (Some payload) thread_id user_id None uuid4 st')
   \<and> (res_status (fst (run_agent_with_input agent_graph None (Some tid) (Some uid) (Some m) uuid4 st))
        = ''error'' \<longrightarrow>
      snd (snd (ChatResumeView_post agent_graph True (Some m) tid uid uuid4 (log, st)))
        = snd (run_agent_with_input agent_graph (Some m) (Some tid) (Some uid) None uuid4
                (snd (run_agent_with_input agent_graph None (Some tid) (Some uid) (Some m) uuid4 st))))"
proof (intro conjI impI)
  assume "map_of (g_nodes g) current = Some f" "1 < remaining_steps s"
    "f (s\<lparr>remaining_steps := remaining_steps s - 1\<rparr>) cfg None = Raise e"
  then show "exec_loop g cfg current None s th
        = (RFailed e, save current (s\<lparr>remaining_steps := remaining_steps s - 1\<rparr>) Failed
                        (th\<lparr>th_executed := th_executed th @ [current]\<rparr>))"
    by (simp add: exec_loop_Raise [where f = f])
next
  assume "agent_graph (Input [HumanMessage (Text u)]) (make_config thread_id user_id uuid4) st
            = (Inl e, st')"
    "interrupt_message e = None"
  then show "run_agent_with_input agent_graph (Some u) thread_id user_id None uuid4 st
        = (\<lparr>res_status = ''error'', res_result = None, res_message = Some (exn_str e),
            res_error_details = Some (format_exc e),
            res_thread_id = effective_thread_id thread_id uuid4\<rparr>, st')"
    by (simp add: run_agent_with_input_def invoke_graph_fresh)
next
  assume "payload \<noteq> []"
    "agent_graph (Command_resume payload) (make_config thread_id user_id uuid4) st = (Inl e, st')"
  then show "run_agent_with_input agent_graph user_input thread_id user_id (Some payload) uuid4 st
        = run_agent_with_input agent_graph (Some payload) thread_id user_id None uuid4 st'"
    by (rule run_agent_resume_falls_back)
next
  assume "res_status (fst (run_agent_with_input agent_graph None (Some tid) (Some uid) (Some m) uuid4 st))
        = ''error''"
  then show "snd (snd (ChatResumeView_post agent_graph True (Some m) tid uid uuid4 (log, st)))
        = snd (run_agent_with_input agent_graph (Some m) (Some tid) (Some uid) None uuid4
                (snd (run_agent_with_input agent_graph None (Some tid) (Some uid) (Some m) uuid4 st)))"
    by (auto simp: ChatResumeView_post_def Let_def split: prod.splits)
qed

theorem node_exception_fails_run_and_caller_retries_witness:
  "fst (exec_loop (build_complete_agent_system one_row database_down 25)
          \<lparr>cfg_thread_id = ''t1'', cfg_user_id = Some ''7''\<rparr> ''load_memory'' None fresh_State new_thread)
     = RFailed (Exn ''OperationalError'' ''unable to open database file'' None)
   \<and> fst (run_agent_with_input agent_system_down (Some ''hi'') (Some ''t1'') (Some ''7'') None ''u1''
            Map.empty)
       = \<lparr>res_status = ''error'', res_result = None,
          res_message = Some ''unable to open database file'',
          res_error_details = Some ''OperationalError: unable to open database file'',
          res_thread_id = ''t1''\<rparr>
   \<and> run_agent_with_input agent_system_down None (Some ''t1'') (Some ''7'') (Some ''hi'') ''u1'' Map.empty
       = run_agent_with_input agent_system_down (Some ''hi'') (Some ''t1'') (Some ''7'') None ''u1'' Map.empty
   \<and> snd (snd (ChatResumeView_post agent_system_down True (Some ''hi'') ''t1'' ''7'' ''u1'' ([], Map.empty)))
       = snd (run_agent_with_input agent_system_down (Some ''hi'') (Some ''t1'') (Some ''7'') None ''u1''
               (snd (run_agent_with_input agent_system_down None (Some ''t1'') (Some ''7'') (Some ''hi'')
                       ''u1'' Map.empty)))"
proof -
  let ?g = "build_complete_agent_system one_row database_down 25"
  let ?cfg = "\<lparr>cfg_thread_id = ''t1'', cfg_user_id = Some ''7''\<rparr>"
  let ?e = "Exn ''OperationalError'' ''unable to open database file'' None"
  let ?f = "\<lambda>state config (resume :: string option). load_memory database_down state config"
  let ?first = "agent_system_down (Input [HumanMessage (Text ''hi'')])
                  (make_config (Some ''t1'') (Some ''7'') ''u1'') Map.empty"
  note inst = node_exception_fails_run_and_caller_retries
    [of ?g "''load_memory''" ?f fresh_State ?cfg ?e new_thread agent_system_down "''hi''"
        "Some ''t1''" "Some ''7''" "''u1''" Map.empty "snd ?first" "''hi''" None "''t1''" "''7''"
        "''hi''" "[]"]
  have node: "map_of (g_nodes ?g) ''load_memory'' = Some ?f"
    by (simp add: build_complete_agent_system_def multi_agent_final_def)
  have budget: "1 < remaining_steps fresh_State"
    by (simp add: fresh_State_def empty_State_def)
  have raises: "?f (fresh_State\<lparr>remaining_steps := remaining_steps fresh_State - 1\<rparr>) ?cfg None = Raise ?e"
    by (simp add: load_memory_def database_down_def)
  from inst node budget raises
  have a: "fst (exec_loop ?g ?cfg ''load_memory'' None fresh_State new_thread) = RFailed ?e"
    by simp
  have "fst ?first = Inl ?e"
    by code_simp
  then have first: "?first = (Inl ?e, snd ?first)"
    by (simp add: prod_eq_iff)
  have attr: "interrupt_message ?e = None"
    by simp
  from inst first attr
  have b: "fst (run_agent_with_input agent_system_down (Some ''hi'') (Some ''t1'') (Some ''7'') None ''u1''
            Map.empty)
       = \<lparr>res_status = ''error'', res_result = None,
          res_message = Some ''unable to open database file'',
          res_error_details = Some ''OperationalError: unable to open database file'',
          res_thread_id = ''t1''\<rparr>"
    by (simp add: format_exc_def effective_thread_id_def truthy_def)
  have resume: "agent_system_down (Command_resume ''hi'') (make_config (Some ''t1'') (Some ''7'') ''u1'')
                  Map.empty = (Inl NoPendingInterruptError, Map.empty)"
    by (simp add: agent_system_down_def invoke_resume_no_marker no_pending_def)
  from node_exception_fails_run_and_caller_retries
    [of ?g "''load_memory''" ?f fresh_State ?cfg NoPendingInterruptError new_thread agent_system_down
        "''hi''" "Some ''t1''" "Some ''7''" "''u1''" Map.empty Map.empty "''hi''" None "''t1''" "''7''"
        "''hi''" "[]"] resume
  have c: "run_agent_with_input agent_system_down None (Some ''t1'') (Some ''7'') (Some ''hi'') ''u1'' Map.empty
       = run_agent_with_input agent_system_down (Some ''hi'') (Some ''t1'') (Some ''7'') None ''u1'' Map.empty"
    by simp
  have failed: "res_status (fst (run_agent_with_input agent_system_down None (Some ''t1'') (Some ''7'')
                  (Some ''hi'') ''u1'' Map.empty)) = ''error''"
    using b c by simp
  from inst failed
  have d: "snd (snd (ChatResumeView_post agent_system_down True (Some ''hi'') ''t1'' ''7'' ''u1'' ([], Map.empty)))
       = snd (run_agent_with_input agent_system_down (Some ''hi'') (Some ''t1'') (Some ''7'') None ''u1''
               (snd (run_agent_with_input agent_system_down None (Some ''t1'') (Some ''7'') (Some ''hi'')
                       ''u1'' Map.empty)))"
    by simp
  from a b c d show ?thesis by simp
qed

text \<open>
  Claim C4 as stated fails: with the database down, \<^verbatim>\<open>load_memory\<close> raises in the fresh run that
  one resume request starts, and the same request runs the graph again: \<^verbatim>\<open>load_memory\<close> is
  executed, and raises, a second time before the view answers 500.
\<close>

theorem failed_run_is_resubmitted_counterexample:
  "http_status (fst (ChatResumeView_post agent_system_down True (Some ''hi'') ''t1'' ''7'' ''u1''
                       ([], Map.empty))) = 500
   \<and> map_option th_executed
         (snd (snd (ChatResumeView_post agent_system_down True (Some ''hi'') ''t1'' ''7'' ''u1''
                      ([], Map.empty))) ''t1'')
       = Some [''verify_info'', ''load_memory'', ''verify_info'', ''load_memory'']"
  by code_simp





text \<open>
  Claim C1, evaluated on the code. \<^verbatim>\<open>verify_info\<close> never leaves the customer id unset: on a State
  without one it sets \<^verbatim>\<open>customer_id = "1"\<close> itself, so after it \<^verbatim>\<open>should_interrupt\<close> always answers
  \<^verbatim>\<open>"continue"\<close> and the next node is always \<^verbatim>\<open>load_memory\<close>. The run of a first message on a
  fresh thread is therefore not interrupted: it completes after \<^verbatim>\<open>verify_info\<close>, \<^verbatim>\<open>load_memory\<close>,
  \<^verbatim>\<open>supervisor\<close> and \<^verbatim>\<open>create_memory\<close>, with customer id \<^verbatim>\<open>"1"\<close>, no pending interrupt marker, and
  \<^verbatim>\<open>human_input\<close> never executed.
\<close>

theorem fresh_thread_is_not_interrupted:
  "(\<exists>d. verify_info s cfg = Delta d
        \<and> should_interrupt (apply_delta s d) cfg = ''continue''
        \<and> next_node (multi_agent_final tools load_user_memory) ''verify_info'' (apply_delta s d) cfg
            = Inr ''load_memory'')
   \<and> res_status (fst (run_agent_with_input agent_system (Some ''hello'') (Some ''t1'') None None ''u1''
                        Map.empty)) = ''complete''
   \<and> map_option th_executed
        (snd (run_agent_with_input agent_system (Some ''hello'') (Some ''t1'') None None ''u1'' Map.empty)
           ''t1'')
       = Some [''verify_info'', ''load_memory'', ''supervisor'', ''create_memory'']
   \<and> map_option th_marker
        (snd (run_agent_with_input agent_system (Some ''hello'') (Some ''t1'') None None ''u1'' Map.empty)
           ''t1'')
       = Some None
   \<and> map_option customer_id
        (res_result (fst (run_agent_with_input agent_system (Some ''hello'') (Some ''t1'') None None
                            ''u1'' Map.empty)))
       = Some (Some (PyStr ''1''))"
proof (intro conjI)
  show "\<exists>d. verify_info s cfg = Delta d
        \<and> should_interrupt (apply_delta s d) cfg = ''continue''
        \<and> next_node (multi_agent_final tools load_user_memory) ''verify_info'' (apply_delta s d) cfg
            = Inr ''load_memory''"
    by (cases "get_customer_id s = PyNone")
       (auto simp: verify_info_def should_interrupt_def get_customer_id_def apply_delta_def
          empty_delta_def next_node_def multi_agent_final_def verify_routes_def START_def Let_def
          split: option.splits)
qed code_simp+

end
